theory Spec2Isabelle
  imports Complex_Main "HOL-Library.AList" "HOL-Library.Product_Lexorder"
begin

section \<open>JavaScript values\<close>

text \<open>
  A JavaScript number is an IEEE double.  The model keeps the three special values the
  program can reach (a division by zero gives an infinity or NaN) and takes the finite
  values as exact rationals: every finite quantity below is a small integer, a quotient of
  two of them, or that quotient times 100.  Signed zero is not distinguished.
\<close>

datatype number = Fin rat | PosInf | NegInf | NaN

text \<open>\<^verbatim>\<open>a / b\<close> on two finite numbers.\<close>

definition js_div :: "rat \<Rightarrow> rat \<Rightarrow> number" where
  "js_div a b =
     (if b \<noteq> 0 then Fin (a / b)
      else if a > 0 then PosInf else if a < 0 then NegInf else NaN)"

text \<open>\<^verbatim>\<open>x * c\<close> for a finite constant \<open>c\<close>.\<close>

fun js_times :: "number \<Rightarrow> rat \<Rightarrow> number" where
  "js_times (Fin a) c = Fin (a * c)"
| "js_times PosInf c = (if c > 0 then PosInf else if c < 0 then NegInf else NaN)"
| "js_times NegInf c = (if c > 0 then NegInf else if c < 0 then PosInf else NaN)"
| "js_times NaN c = NaN"

text \<open>\<^verbatim>\<open>Math.round\<close>: the nearest integer, a half rounding up.\<close>

fun Math_round :: "number \<Rightarrow> number" where
  "Math_round (Fin a) = Fin (of_int \<lfloor>a + 1 / 2\<rfloor>)"
| "Math_round PosInf = PosInf"
| "Math_round NegInf = NegInf"
| "Math_round NaN = NaN"

text \<open>\<^verbatim>\<open>x >= c\<close> for a finite constant \<open>c\<close>; every comparison with NaN is false.\<close>

fun js_ge :: "number \<Rightarrow> rat \<Rightarrow> bool" where
  "js_ge (Fin a) c = (a \<ge> c)"
| "js_ge PosInf c = True"
| "js_ge NegInf c = False"
| "js_ge NaN c = False"

text \<open>
  Values as \<^verbatim>\<open>JSON.parse\<close> produces them, with \<^verbatim>\<open>undefined\<close> added.  An object is the
  list of its own properties in insertion order.  A character is a UTF-16 code unit below 256.
\<close>

datatype jsvalue =
    JUndefined
  | JNull
  | JBool bool
  | JNum number
  | JStr string
  | JArr "jsvalue list"
  | JObj "(string \<times> jsvalue) list"

subsection \<open>Strings\<close>

text \<open>White space as \<^verbatim>\<open>String.prototype.trim\<close> and the regular expression class \<^verbatim>\<open>\s\<close> see it
  (the code units below 256: TAB, LF, VT, FF, CR, SPACE, NBSP).\<close>

definition is_ws :: "char \<Rightarrow> bool" where
  "is_ws c = (c \<in> set [CHR 0x09, CHR 0x0A, CHR 0x0B, CHR 0x0C, CHR 0x0D, CHR 0x20, CHR 0xA0])"

definition trim :: "string \<Rightarrow> string" where
  "trim s = rev (dropWhile is_ws (rev (dropWhile is_ws s)))"

definition lower_char :: "char \<Rightarrow> char" where
  "lower_char c =
     (let n = (of_char c :: nat)
      in if (65 \<le> n \<and> n \<le> 90) \<or> (192 \<le> n \<and> n \<le> 222 \<and> n \<noteq> 215)
         then char_of (n + 32) else c)"

definition toLowerCase :: "string \<Rightarrow> string" where
  "toLowerCase s = map lower_char s"

text \<open>\<^verbatim>\<open>s.replace(/\s+/g, '-')\<close>: every maximal run of white space becomes one hyphen.
  The flag says whether the previous character was white space.\<close>

fun replace_ws_run :: "bool \<Rightarrow> string \<Rightarrow> string" where
  "replace_ws_run in_run [] = []"
| "replace_ws_run in_run (c # cs) =
     (if is_ws c then (if in_run then replace_ws_run True cs else CHR ''-'' # replace_ws_run True cs)
      else c # replace_ws_run False cs)"

definition replace_ws :: "string \<Rightarrow> string" where
  "replace_ws s = replace_ws_run False s"

section \<open>Rule catalogue\<close>

text \<open>
  What a rule's \<^verbatim>\<open>check\<close> returns.  \<open>cr_passed\<close> is the truthiness of the returned
  \<^verbatim>\<open>passed\<close>.  A check that throws is \<open>Inl\<close> of the thrown error's message.
\<close>

record check_result =
  cr_passed :: bool
  cr_value :: jsvalue
  cr_message :: string

type_synonym check_fun = "jsvalue \<Rightarrow> string + check_result"

record rule =
  rule_id :: string
  rule_name :: string
  category :: string
  weight :: int
  severity :: string
  check :: check_fun
  recommendation :: string

text \<open>
  The rules of the nine groups of \<^verbatim>\<open>rules/*.js\<close>, in the order \<^verbatim>\<open>rules/index.js\<close> concatenates
  them.  The bodies of the check functions (regular expressions, dates) are not embedded:
  \<open>chk\<close> gives the check of each rule id, and every result below holds for all \<open>chk\<close>.
\<close>

definition rule_title_presence :: "(string \<Rightarrow> check_fun) \<Rightarrow> rule" where
  \<open>rule_title_presence chk =
     \<lparr>rule_id = ''title-presence'', rule_name = ''Title Present'', category = ''identification'',
      weight = 15, severity = ''critical'', check = chk ''title-presence'',
      recommendation = ''Provide a clear, concise title that describes the dataset content.''\<rparr>\<close>

definition rule_title_length :: "(string \<Rightarrow> check_fun) \<Rightarrow> rule" where
  \<open>rule_title_length chk =
     \<lparr>rule_id = ''title-length'', rule_name = ''Title Length'', category = ''identification'',
      weight = 8, severity = ''warning'', check = chk ''title-length'',
      recommendation = ''Expand the title to be more descriptive (at least 10 characters). Include the subject, data type, and scope.''\<rparr>\<close>

definition rule_title_not_generic :: "(string \<Rightarrow> check_fun) \<Rightarrow> rule" where
  \<open>rule_title_not_generic chk =
     \<lparr>rule_id = ''title-not-generic'', rule_name = ''Title Not Generic'', category = ''identification'',
      weight = 5, severity = ''warning'', check = chk ''title-not-generic'',
      recommendation = ''Replace generic title with a specific, descriptive name that indicates the dataset content and scope.''\<rparr>\<close>

definition rule_authors_presence :: "(string \<Rightarrow> check_fun) \<Rightarrow> rule" where
  \<open>rule_authors_presence chk =
     \<lparr>rule_id = ''authors-presence'', rule_name = ''Authors Listed'', category = ''identification'',
      weight = 10, severity = ''important'', check = chk ''authors-presence'',
      recommendation = ''Add at least one author name to establish provenance and enable proper citation.''\<rparr>\<close>

definition rule_publisher_presence :: "(string \<Rightarrow> check_fun) \<Rightarrow> rule" where
  \<open>rule_publisher_presence chk =
     \<lparr>rule_id = ''publisher-presence'', rule_name = ''Publisher Identified'', category = ''identification'',
      weight = 6, severity = ''warning'', check = chk ''publisher-presence'',
      recommendation = ''Add the name of the organization or entity responsible for publishing this dataset.''\<rparr>\<close>

definition rule_version_present :: "(string \<Rightarrow> check_fun) \<Rightarrow> rule" where
  \<open>rule_version_present chk =
     \<lparr>rule_id = ''version-present'', rule_name = ''Version Specified'', category = ''identification'',
      weight = 4, severity = ''suggestion'', check = chk ''version-present'',
      recommendation = ''Add a version identifier (e.g., "1.0.0", "2024-01") to track dataset updates and enable reproducibility.''\<rparr>\<close>

definition rule_doi_present :: "(string \<Rightarrow> check_fun) \<Rightarrow> rule" where
  \<open>rule_doi_present chk =
     \<lparr>rule_id = ''doi-present'', rule_name = ''DOI Available'', category = ''identification'',
      weight = 5, severity = ''suggestion'', check = chk ''doi-present'',
      recommendation = ''Register a DOI for this dataset to enable persistent identification and proper citation.''\<rparr>\<close>

definition identificationRules :: "(string \<Rightarrow> check_fun) \<Rightarrow> rule list" where
  "identificationRules chk =
     [rule_title_presence chk, rule_title_length chk, rule_title_not_generic chk,
      rule_authors_presence chk, rule_publisher_presence chk, rule_version_present chk,
      rule_doi_present chk]"

definition rule_description_presence :: "(string \<Rightarrow> check_fun) \<Rightarrow> rule" where
  \<open>rule_description_presence chk =
     \<lparr>rule_id = ''description-presence'', rule_name = ''Description Present'', category = ''description'',
      weight = 12, severity = ''critical'', check = chk ''description-presence'',
      recommendation = ''Add a description explaining what the dataset contains, its purpose, and how it was created.''\<rparr>\<close>

definition rule_description_length_minimum :: "(string \<Rightarrow> check_fun) \<Rightarrow> rule" where
  \<open>rule_description_length_minimum chk =
     \<lparr>rule_id = ''description-length-minimum'', rule_name = ''Description Minimum Length'', category = ''description'',
      weight = 10, severity = ''important'', check = chk ''description-length-minimum'',
      recommendation = ''Expand the description to at least 100 characters. Include information about the data content, collection methods, and intended use.''\<rparr>\<close>

definition rule_description_comprehensive :: "(string \<Rightarrow> check_fun) \<Rightarrow> rule" where
  \<open>rule_description_comprehensive chk =
     \<lparr>rule_id = ''description-comprehensive'', rule_name = ''Description Comprehensive'', category = ''description'',
      weight = 6, severity = ''suggestion'', check = chk ''description-comprehensive'',
      recommendation = ''For best quality, expand the description to 250+ characters covering data scope, methodology, temporal/spatial coverage, and limitations.''\<rparr>\<close>

definition rule_methodology_present :: "(string \<Rightarrow> check_fun) \<Rightarrow> rule" where
  \<open>rule_methodology_present chk =
     \<lparr>rule_id = ''methodology-present'', rule_name = ''Methodology Documented'', category = ''description'',
      weight = 8, severity = ''important'', check = chk ''methodology-present'',
      recommendation = ''Add methodology documentation explaining how the data was collected, processed, and validated.''\<rparr>\<close>

definition rule_methodology_detailed :: "(string \<Rightarrow> check_fun) \<Rightarrow> rule" where
  \<open>rule_methodology_detailed chk =
     \<lparr>rule_id = ''methodology-detailed'', rule_name = ''Methodology Detailed'', category = ''description'',
      weight = 4, severity = ''suggestion'', check = chk ''methodology-detailed'',
      recommendation = ''Expand methodology to include specific collection instruments, sampling methods, processing steps, and quality assurance measures.''\<rparr>\<close>

definition rule_data_format_specified :: "(string \<Rightarrow> check_fun) \<Rightarrow> rule" where
  \<open>rule_data_format_specified chk =
     \<lparr>rule_id = ''data-format-specified'', rule_name = ''Data Format Specified'', category = ''description'',
      weight = 5, severity = ''warning'', check = chk ''data-format-specified'',
      recommendation = ''Specify the file formats available for this dataset (e.g., CSV, JSON, Parquet, GeoJSON).''\<rparr>\<close>

definition descriptionRules :: "(string \<Rightarrow> check_fun) \<Rightarrow> rule list" where
  "descriptionRules chk =
     [rule_description_presence chk, rule_description_length_minimum chk,
      rule_description_comprehensive chk, rule_methodology_present chk,
      rule_methodology_detailed chk, rule_data_format_specified chk]"

definition rule_license_presence :: "(string \<Rightarrow> check_fun) \<Rightarrow> rule" where
  \<open>rule_license_presence chk =
     \<lparr>rule_id = ''license-presence'', rule_name = ''License Present'', category = ''legal'',
      weight = 15, severity = ''critical'', check = chk ''license-presence'',
      recommendation = ''Specify a clear license for the dataset. Consider using a standard SPDX identifier like CC-BY-4.0 or CC0-1.0.''\<rparr>\<close>

definition rule_license_spdx_valid :: "(string \<Rightarrow> check_fun) \<Rightarrow> rule" where
  \<open>rule_license_spdx_valid chk =
     \<lparr>rule_id = ''license-spdx-valid'', rule_name = ''SPDX License Identifier'', category = ''legal'',
      weight = 8, severity = ''important'', check = chk ''license-spdx-valid'',
      recommendation = ''Use a standard SPDX license identifier (e.g., CC-BY-4.0, MIT, Apache-2.0) for better interoperability and legal clarity.''\<rparr>\<close>

definition rule_license_open :: "(string \<Rightarrow> check_fun) \<Rightarrow> rule" where
  \<open>rule_license_open chk =
     \<lparr>rule_id = ''license-open'', rule_name = ''Open Data License'', category = ''legal'',
      weight = 5, severity = ''suggestion'', check = chk ''license-open'',
      recommendation = ''Consider using an open license like CC-BY-4.0 or CC0-1.0 to maximize data reuse and impact.''\<rparr>\<close>

definition rule_license_not_restrictive :: "(string \<Rightarrow> check_fun) \<Rightarrow> rule" where
  \<open>rule_license_not_restrictive chk =
     \<lparr>rule_id = ''license-not-restrictive'', rule_name = ''License Not Overly Restrictive'', category = ''legal'',
      weight = 3, severity = ''suggestion'', check = chk ''license-not-restrictive'',
      recommendation = ''The NoDerivatives (ND) restriction limits how others can build on your data. Consider a less restrictive license for greater impact.''\<rparr>\<close>

definition rule_contact_for_licensing :: "(string \<Rightarrow> check_fun) \<Rightarrow> rule" where
  \<open>rule_contact_for_licensing chk =
     \<lparr>rule_id = ''contact-for-licensing'', rule_name = ''Contact Information for Licensing'', category = ''legal'',
      weight = 4, severity = ''suggestion'', check = chk ''contact-for-licensing'',
      recommendation = ''Provide a contact email address for users with licensing questions or data access requests.''\<rparr>\<close>

definition licenseRules :: "(string \<Rightarrow> check_fun) \<Rightarrow> rule list" where
  "licenseRules chk =
     [rule_license_presence chk, rule_license_spdx_valid chk, rule_license_open chk,
      rule_license_not_restrictive chk, rule_contact_for_licensing chk]"

definition rule_keywords_presence :: "(string \<Rightarrow> check_fun) \<Rightarrow> rule" where
  \<open>rule_keywords_presence chk =
     \<lparr>rule_id = ''keywords-presence'', rule_name = ''Keywords Present'', category = ''description'',
      weight = 8, severity = ''important'', check = chk ''keywords-presence'',
      recommendation = ''Add keywords that describe the dataset topic, domain, and content to improve discoverability.''\<rparr>\<close>

definition rule_keywords_minimum_count :: "(string \<Rightarrow> check_fun) \<Rightarrow> rule" where
  \<open>rule_keywords_minimum_count chk =
     \<lparr>rule_id = ''keywords-minimum-count'', rule_name = ''Minimum Keyword Count'', category = ''description'',
      weight = 6, severity = ''warning'', check = chk ''keywords-minimum-count'',
      recommendation = ''Add at least 3 keywords covering: (1) the subject domain, (2) data type or format, (3) geographic or temporal scope.''\<rparr>\<close>

definition rule_keywords_not_excessive :: "(string \<Rightarrow> check_fun) \<Rightarrow> rule" where
  \<open>rule_keywords_not_excessive chk =
     \<lparr>rule_id = ''keywords-not-excessive'', rule_name = ''Keywords Not Excessive'', category = ''description'',
      weight = 2, severity = ''suggestion'', check = chk ''keywords-not-excessive'',
      recommendation = ''Reduce keywords to the most relevant 10-15 terms. Excessive tagging can reduce search effectiveness.''\<rparr>\<close>

definition rule_keywords_unique :: "(string \<Rightarrow> check_fun) \<Rightarrow> rule" where
  \<open>rule_keywords_unique chk =
     \<lparr>rule_id = ''keywords-unique'', rule_name = ''Keywords Unique'', category = ''description'',
      weight = 3, severity = ''warning'', check = chk ''keywords-unique'',
      recommendation = ''Remove duplicate keywords to maintain clean metadata.''\<rparr>\<close>

definition rule_keywords_length :: "(string \<Rightarrow> check_fun) \<Rightarrow> rule" where
  \<open>rule_keywords_length chk =
     \<lparr>rule_id = ''keywords-length'', rule_name = ''Keyword Quality'', category = ''description'',
      weight = 3, severity = ''suggestion'', check = chk ''keywords-length'',
      recommendation = ''Replace very short keywords with more descriptive terms (minimum 3 characters recommended).''\<rparr>\<close>

definition rule_keywords_no_generic :: "(string \<Rightarrow> check_fun) \<Rightarrow> rule" where
  \<open>rule_keywords_no_generic chk =
     \<lparr>rule_id = ''keywords-no-generic'', rule_name = ''Keywords Specific'', category = ''description'',
      weight = 3, severity = ''suggestion'', check = chk ''keywords-no-generic'',
      recommendation = ''Replace generic keywords like "data" or "dataset" with more specific domain terms.''\<rparr>\<close>

definition keywordRules :: "(string \<Rightarrow> check_fun) \<Rightarrow> rule list" where
  "keywordRules chk =
     [rule_keywords_presence chk, rule_keywords_minimum_count chk,
      rule_keywords_not_excessive chk, rule_keywords_unique chk, rule_keywords_length chk,
      rule_keywords_no_generic chk]"

definition rule_publication_date_present :: "(string \<Rightarrow> check_fun) \<Rightarrow> rule" where
  \<open>rule_publication_date_present chk =
     \<lparr>rule_id = ''publication-date-present'', rule_name = ''Publication Date Present'', category = ''provenance'',
      weight = 8, severity = ''important'', check = chk ''publication-date-present'',
      recommendation = ''Add a publication date in ISO format (YYYY-MM-DD) to establish data currency.''\<rparr>\<close>

definition rule_publication_date_valid :: "(string \<Rightarrow> check_fun) \<Rightarrow> rule" where
  \<open>rule_publication_date_valid chk =
     \<lparr>rule_id = ''publication-date-valid'', rule_name = ''Publication Date Valid'', category = ''provenance'',
      weight = 5, severity = ''warning'', check = chk ''publication-date-valid'',
      recommendation = ''Use a valid date format (YYYY-MM-DD recommended, e.g., 2024-01-15).''\<rparr>\<close>

definition rule_publication_date_not_future :: "(string \<Rightarrow> check_fun) \<Rightarrow> rule" where
  \<open>rule_publication_date_not_future chk =
     \<lparr>rule_id = ''publication-date-not-future'', rule_name = ''Publication Date Not Future'', category = ''provenance'',
      weight = 4, severity = ''warning'', check = chk ''publication-date-not-future'',
      recommendation = ''Correct the publication date to reflect when the dataset was actually published.''\<rparr>\<close>

definition rule_temporal_coverage_present :: "(string \<Rightarrow> check_fun) \<Rightarrow> rule" where
  \<open>rule_temporal_coverage_present chk =
     \<lparr>rule_id = ''temporal-coverage-present'', rule_name = ''Temporal Coverage Specified'', category = ''provenance'',
      weight = 5, severity = ''suggestion'', check = chk ''temporal-coverage-present'',
      recommendation = ''Add temporal coverage information (start_date and end_date) to indicate when the data was collected.''\<rparr>\<close>

definition rule_spatial_coverage_present :: "(string \<Rightarrow> check_fun) \<Rightarrow> rule" where
  \<open>rule_spatial_coverage_present chk =
     \<lparr>rule_id = ''spatial-coverage-present'', rule_name = ''Spatial Coverage Specified'', category = ''provenance'',
      weight = 4, severity = ''suggestion'', check = chk ''spatial-coverage-present'',
      recommendation = ''Add geographic coverage information (e.g., country, region, coordinates) if applicable to the dataset.''\<rparr>\<close>

definition rule_funding_present :: "(string \<Rightarrow> check_fun) \<Rightarrow> rule" where
  \<open>rule_funding_present chk =
     \<lparr>rule_id = ''funding-present'', rule_name = ''Funding Acknowledged'', category = ''provenance'',
      weight = 4, severity = ''suggestion'', check = chk ''funding-present'',
      recommendation = ''If applicable, add funding source information including grant numbers for transparency and compliance.''\<rparr>\<close>

definition rule_access_url_present :: "(string \<Rightarrow> check_fun) \<Rightarrow> rule" where
  \<open>rule_access_url_present chk =
     \<lparr>rule_id = ''access-url-present'', rule_name = ''Access URL Provided'', category = ''provenance'',
      weight = 6, severity = ''warning'', check = chk ''access-url-present'',
      recommendation = ''Add an access URL where users can download or access the dataset.''\<rparr>\<close>

definition rule_access_url_valid :: "(string \<Rightarrow> check_fun) \<Rightarrow> rule" where
  \<open>rule_access_url_valid chk =
     \<lparr>rule_id = ''access-url-valid'', rule_name = ''Access URL Valid Format'', category = ''provenance'',
      weight = 3, severity = ''warning'', check = chk ''access-url-valid'',
      recommendation = ''Provide a valid HTTP/HTTPS URL (e.g., https://example.com/datasets/my-dataset).''\<rparr>\<close>

definition rule_citations_present :: "(string \<Rightarrow> check_fun) \<Rightarrow> rule" where
  \<open>rule_citations_present chk =
     \<lparr>rule_id = ''citations-present'', rule_name = ''Citations Listed'', category = ''provenance'',
      weight = 3, severity = ''suggestion'', check = chk ''citations-present'',
      recommendation = ''Add related publications, papers, or documentation that describe or use this dataset.''\<rparr>\<close>

definition provenanceRules :: "(string \<Rightarrow> check_fun) \<Rightarrow> rule list" where
  "provenanceRules chk =
     [rule_publication_date_present chk, rule_publication_date_valid chk,
      rule_publication_date_not_future chk, rule_temporal_coverage_present chk,
      rule_spatial_coverage_present chk, rule_funding_present chk,
      rule_access_url_present chk, rule_access_url_valid chk, rule_citations_present chk]"

definition rule_acc_url_present :: "(string \<Rightarrow> check_fun) \<Rightarrow> rule" where
  \<open>rule_acc_url_present chk =
     \<lparr>rule_id = ''acc-url-present'', rule_name = ''Access URL Present'', category = ''provenance'',
      weight = 8, severity = ''important'', check = chk ''acc-url-present'',
      recommendation = ''Provide a valid HTTP/HTTPS URL where users can access the data.''\<rparr>\<close>

definition rule_acc_url_valid :: "(string \<Rightarrow> check_fun) \<Rightarrow> rule" where
  \<open>rule_acc_url_valid chk =
     \<lparr>rule_id = ''acc-url-valid'', rule_name = ''Access URL Valid'', category = ''provenance'',
      weight = 4, severity = ''warning'', check = chk ''acc-url-valid'',
      recommendation = ''Ensure the access URL starts with http:// or https:// and contains no spaces.''\<rparr>\<close>

definition rule_acc_format_specified :: "(string \<Rightarrow> check_fun) \<Rightarrow> rule" where
  \<open>rule_acc_format_specified chk =
     \<lparr>rule_id = ''acc-format-specified'', rule_name = ''Data Format Specified'', category = ''description'',
      weight = 6, severity = ''important'', check = chk ''acc-format-specified'',
      recommendation = ''Specify the file formats available (e.g., CSV, JSON, Parquet).''\<rparr>\<close>

definition rule_acc_multiple_formats :: "(string \<Rightarrow> check_fun) \<Rightarrow> rule" where
  \<open>rule_acc_multiple_formats chk =
     \<lparr>rule_id = ''acc-multiple-formats'', rule_name = ''Multiple Formats'', category = ''description'',
      weight = 2, severity = ''suggestion'', check = chk ''acc-multiple-formats'',
      recommendation = ''Provide data in multiple formats to support different use cases.''\<rparr>\<close>

definition rule_acc_open_format :: "(string \<Rightarrow> check_fun) \<Rightarrow> rule" where
  \<open>rule_acc_open_format chk =
     \<lparr>rule_id = ''acc-open-format'', rule_name = ''Open Format Available'', category = ''description'',
      weight = 4, severity = ''warning'', check = chk ''acc-open-format'',
      recommendation = ''Include open formats like CSV, JSON, or Parquet.''\<rparr>\<close>

definition rule_acc_file_size :: "(string \<Rightarrow> check_fun) \<Rightarrow> rule" where
  \<open>rule_acc_file_size chk =
     \<lparr>rule_id = ''acc-file-size'', rule_name = ''File Size Documented'', category = ''description'',
      weight = 2, severity = ''suggestion'', check = chk ''acc-file-size'',
      recommendation = ''Document file size for download planning.''\<rparr>\<close>

definition rule_acc_language :: "(string \<Rightarrow> check_fun) \<Rightarrow> rule" where
  \<open>rule_acc_language chk =
     \<lparr>rule_id = ''acc-language'', rule_name = ''Language Specified'', category = ''description'',
      weight = 3, severity = ''suggestion'', check = chk ''acc-language'',
      recommendation = ''Specify the language (e.g., "en" for English).''\<rparr>\<close>

definition rule_acc_documentation :: "(string \<Rightarrow> check_fun) \<Rightarrow> rule" where
  \<open>rule_acc_documentation chk =
     \<lparr>rule_id = ''acc-documentation'', rule_name = ''Documentation Link'', category = ''description'',
      weight = 6, severity = ''important'', check = chk ''acc-documentation'',
      recommendation = ''Provide a link to documentation or data dictionary.''\<rparr>\<close>

definition rule_acc_record_count :: "(string \<Rightarrow> check_fun) \<Rightarrow> rule" where
  \<open>rule_acc_record_count chk =
     \<lparr>rule_id = ''acc-record-count'', rule_name = ''Record Count'', category = ''description'',
      weight = 3, severity = ''suggestion'', check = chk ''acc-record-count'',
      recommendation = ''Document the number of records in the dataset.''\<rparr>\<close>

definition rule_acc_api :: "(string \<Rightarrow> check_fun) \<Rightarrow> rule" where
  \<open>rule_acc_api chk =
     \<lparr>rule_id = ''acc-api'', rule_name = ''API Access'', category = ''provenance'',
      weight = 2, severity = ''suggestion'', check = chk ''acc-api'',
      recommendation = ''Consider providing API access for programmatic use.''\<rparr>\<close>

definition accessibilityRules :: "(string \<Rightarrow> check_fun) \<Rightarrow> rule list" where
  "accessibilityRules chk =
     [rule_acc_url_present chk, rule_acc_url_valid chk, rule_acc_format_specified chk,
      rule_acc_multiple_formats chk, rule_acc_open_format chk, rule_acc_file_size chk,
      rule_acc_language chk, rule_acc_documentation chk, rule_acc_record_count chk,
      rule_acc_api chk]"

definition rule_int_schema_defined :: "(string \<Rightarrow> check_fun) \<Rightarrow> rule" where
  \<open>rule_int_schema_defined chk =
     \<lparr>rule_id = ''int-schema-defined'', rule_name = ''Schema Defined'', category = ''description'',
      weight = 6, severity = ''important'', check = chk ''int-schema-defined'',
      recommendation = ''Document data structure for interoperability.''\<rparr>\<close>

definition rule_int_standard_vocab :: "(string \<Rightarrow> check_fun) \<Rightarrow> rule" where
  \<open>rule_int_standard_vocab chk =
     \<lparr>rule_id = ''int-standard-vocab'', rule_name = ''Standard Vocabulary'', category = ''description'',
      weight = 3, severity = ''suggestion'', check = chk ''int-standard-vocab'',
      recommendation = ''Consider using Dublin Core, DCAT, or Schema.org vocabularies.''\<rparr>\<close>

definition rule_int_date_iso8601 :: "(string \<Rightarrow> check_fun) \<Rightarrow> rule" where
  \<open>rule_int_date_iso8601 chk =
     \<lparr>rule_id = ''int-date-iso8601'', rule_name = ''ISO 8601 Dates'', category = ''provenance'',
      weight = 4, severity = ''warning'', check = chk ''int-date-iso8601'',
      recommendation = ''Use ISO 8601 date format (YYYY-MM-DD).''\<rparr>\<close>

definition rule_int_persistent_id :: "(string \<Rightarrow> check_fun) \<Rightarrow> rule" where
  \<open>rule_int_persistent_id chk =
     \<lparr>rule_id = ''int-persistent-id'', rule_name = ''Persistent Identifier'', category = ''identification'',
      weight = 6, severity = ''important'', check = chk ''int-persistent-id'',
      recommendation = ''Use DOI, ARK, or Handle for persistent identification.''\<rparr>\<close>

definition rule_int_machine_license :: "(string \<Rightarrow> check_fun) \<Rightarrow> rule" where
  \<open>rule_int_machine_license chk =
     \<lparr>rule_id = ''int-machine-license'', rule_name = ''Machine-Readable License'', category = ''legal'',
      weight = 5, severity = ''warning'', check = chk ''int-machine-license'',
      recommendation = ''Use SPDX license identifier or provide license URL.''\<rparr>\<close>

definition rule_int_encoding :: "(string \<Rightarrow> check_fun) \<Rightarrow> rule" where
  \<open>rule_int_encoding chk =
     \<lparr>rule_id = ''int-encoding'', rule_name = ''Encoding Specified'', category = ''description'',
      weight = 2, severity = ''suggestion'', check = chk ''int-encoding'',
      recommendation = ''Specify character encoding (e.g., UTF-8).''\<rparr>\<close>

definition rule_int_related_resources :: "(string \<Rightarrow> check_fun) \<Rightarrow> rule" where
  \<open>rule_int_related_resources chk =
     \<lparr>rule_id = ''int-related-resources'', rule_name = ''Related Resources'', category = ''provenance'',
      weight = 3, severity = ''suggestion'', check = chk ''int-related-resources'',
      recommendation = ''Link related datasets or resources.''\<rparr>\<close>

definition rule_int_version_pattern :: "(string \<Rightarrow> check_fun) \<Rightarrow> rule" where
  \<open>rule_int_version_pattern chk =
     \<lparr>rule_id = ''int-version-pattern'', rule_name = ''Version Pattern'', category = ''identification'',
      weight = 3, severity = ''suggestion'', check = chk ''int-version-pattern'',
      recommendation = ''Use semantic versioning (1.0.0) or date-based versioning.''\<rparr>\<close>

definition rule_int_spatial_crs :: "(string \<Rightarrow> check_fun) \<Rightarrow> rule" where
  \<open>rule_int_spatial_crs chk =
     \<lparr>rule_id = ''int-spatial-crs'', rule_name = ''Spatial Reference'', category = ''provenance'',
      weight = 3, severity = ''suggestion'', check = chk ''int-spatial-crs'',
      recommendation = ''Specify coordinate reference system (e.g., WGS84, EPSG code).''\<rparr>\<close>

definition rule_int_namespace :: "(string \<Rightarrow> check_fun) \<Rightarrow> rule" where
  \<open>rule_int_namespace chk =
     \<lparr>rule_id = ''int-namespace'', rule_name = ''Identifier Namespace'', category = ''identification'',
      weight = 2, severity = ''suggestion'', check = chk ''int-namespace'',
      recommendation = ''Add organization prefix to identifier for uniqueness.''\<rparr>\<close>

definition interoperabilityRules :: "(string \<Rightarrow> check_fun) \<Rightarrow> rule list" where
  "interoperabilityRules chk =
     [rule_int_schema_defined chk, rule_int_standard_vocab chk, rule_int_date_iso8601 chk,
      rule_int_persistent_id chk, rule_int_machine_license chk, rule_int_encoding chk,
      rule_int_related_resources chk, rule_int_version_pattern chk, rule_int_spatial_crs chk,
      rule_int_namespace chk]"

definition rule_cit_doi_present :: "(string \<Rightarrow> check_fun) \<Rightarrow> rule" where
  \<open>rule_cit_doi_present chk =
     \<lparr>rule_id = ''cit-doi-present'', rule_name = ''DOI Present'', category = ''identification'',
      weight = 4, severity = ''warning'', check = chk ''cit-doi-present'',
      recommendation = ''Register a DOI for proper dataset citation.''\<rparr>\<close>

definition rule_cit_citation_text :: "(string \<Rightarrow> check_fun) \<Rightarrow> rule" where
  \<open>rule_cit_citation_text chk =
     \<lparr>rule_id = ''cit-citation-text'', rule_name = ''Citation Text'', category = ''identification'',
      weight = 3, severity = ''suggestion'', check = chk ''cit-citation-text'',
      recommendation = ''Provide a suggested citation format for users.''\<rparr>\<close>

definition rule_cit_author_orcid :: "(string \<Rightarrow> check_fun) \<Rightarrow> rule" where
  \<open>rule_cit_author_orcid chk =
     \<lparr>rule_id = ''cit-author-orcid'', rule_name = ''Author Identifiers'', category = ''identification'',
      weight = 3, severity = ''suggestion'', check = chk ''cit-author-orcid'',
      recommendation = ''Add ORCID for authors.''\<rparr>\<close>

definition rule_cit_pub_date :: "(string \<Rightarrow> check_fun) \<Rightarrow> rule" where
  \<open>rule_cit_pub_date chk =
     \<lparr>rule_id = ''cit-pub-date'', rule_name = ''Publication Date for Citation'', category = ''provenance'',
      weight = 4, severity = ''warning'', check = chk ''cit-pub-date'',
      recommendation = ''Publication date is required for proper citation.''\<rparr>\<close>

definition rule_cit_publisher :: "(string \<Rightarrow> check_fun) \<Rightarrow> rule" where
  \<open>rule_cit_publisher chk =
     \<lparr>rule_id = ''cit-publisher'', rule_name = ''Publisher for Citation'', category = ''identification'',
      weight = 4, severity = ''warning'', check = chk ''cit-publisher'',
      recommendation = ''Identify the publisher or hosting repository.''\<rparr>\<close>

definition rule_cit_version :: "(string \<Rightarrow> check_fun) \<Rightarrow> rule" where
  \<open>rule_cit_version chk =
     \<lparr>rule_id = ''cit-version'', rule_name = ''Citable Version'', category = ''identification'',
      weight = 3, severity = ''warning'', check = chk ''cit-version'',
      recommendation = ''Add version for reproducible citations.''\<rparr>\<close>

definition rule_cit_funding :: "(string \<Rightarrow> check_fun) \<Rightarrow> rule" where
  \<open>rule_cit_funding chk =
     \<lparr>rule_id = ''cit-funding'', rule_name = ''Funding for Citation'', category = ''provenance'',
      weight = 2, severity = ''suggestion'', check = chk ''cit-funding'',
      recommendation = ''Acknowledge funding sources if applicable.''\<rparr>\<close>

definition rule_cit_publications :: "(string \<Rightarrow> check_fun) \<Rightarrow> rule" where
  \<open>rule_cit_publications chk =
     \<lparr>rule_id = ''cit-publications'', rule_name = ''Related Publications'', category = ''provenance'',
      weight = 3, severity = ''suggestion'', check = chk ''cit-publications'',
      recommendation = ''Link related publications that use this dataset.''\<rparr>\<close>

definition citationRules :: "(string \<Rightarrow> check_fun) \<Rightarrow> rule list" where
  "citationRules chk =
     [rule_cit_doi_present chk, rule_cit_citation_text chk, rule_cit_author_orcid chk,
      rule_cit_pub_date chk, rule_cit_publisher chk, rule_cit_version chk,
      rule_cit_funding chk, rule_cit_publications chk]"

definition rule_reu_license_reuse :: "(string \<Rightarrow> check_fun) \<Rightarrow> rule" where
  \<open>rule_reu_license_reuse chk =
     \<lparr>rule_id = ''reu-license-reuse'', rule_name = ''License Allows Reuse'', category = ''legal'',
      weight = 6, severity = ''important'', check = chk ''reu-license-reuse'',
      recommendation = ''Use open licenses like CC-BY or CC0 for maximum reusability.''\<rparr>\<close>

definition rule_reu_methodology :: "(string \<Rightarrow> check_fun) \<Rightarrow> rule" where
  \<open>rule_reu_methodology chk =
     \<lparr>rule_id = ''reu-methodology'', rule_name = ''Methodology Documented'', category = ''description'',
      weight = 5, severity = ''warning'', check = chk ''reu-methodology'',
      recommendation = ''Document data collection methodology for reproducibility.''\<rparr>\<close>

definition rule_reu_processing :: "(string \<Rightarrow> check_fun) \<Rightarrow> rule" where
  \<open>rule_reu_processing chk =
     \<lparr>rule_id = ''reu-processing'', rule_name = ''Processing Steps'', category = ''description'',
      weight = 4, severity = ''suggestion'', check = chk ''reu-processing'',
      recommendation = ''Document any data processing or cleaning steps.''\<rparr>\<close>

definition rule_reu_quality_metrics :: "(string \<Rightarrow> check_fun) \<Rightarrow> rule" where
  \<open>rule_reu_quality_metrics chk =
     \<lparr>rule_id = ''reu-quality-metrics'', rule_name = ''Quality Metrics'', category = ''description'',
      weight = 3, severity = ''suggestion'', check = chk ''reu-quality-metrics'',
      recommendation = ''Include data quality metrics or validation results.''\<rparr>\<close>

definition rule_reu_limitations :: "(string \<Rightarrow> check_fun) \<Rightarrow> rule" where
  \<open>rule_reu_limitations chk =
     \<lparr>rule_id = ''reu-limitations'', rule_name = ''Limitations Documented'', category = ''description'',
      weight = 4, severity = ''warning'', check = chk ''reu-limitations'',
      recommendation = ''Document known limitations, caveats, or issues.''\<rparr>\<close>

definition rule_reu_sample_data :: "(string \<Rightarrow> check_fun) \<Rightarrow> rule" where
  \<open>rule_reu_sample_data chk =
     \<lparr>rule_id = ''reu-sample-data'', rule_name = ''Sample Data'', category = ''description'',
      weight = 2, severity = ''suggestion'', check = chk ''reu-sample-data'',
      recommendation = ''Provide sample data or preview.''\<rparr>\<close>

definition rule_reu_update_frequency :: "(string \<Rightarrow> check_fun) \<Rightarrow> rule" where
  \<open>rule_reu_update_frequency chk =
     \<lparr>rule_id = ''reu-update-frequency'', rule_name = ''Update Frequency'', category = ''provenance'',
      weight = 2, severity = ''suggestion'', check = chk ''reu-update-frequency'',
      recommendation = ''Specify update frequency.''\<rparr>\<close>

definition rule_reu_intended_use :: "(string \<Rightarrow> check_fun) \<Rightarrow> rule" where
  \<open>rule_reu_intended_use chk =
     \<lparr>rule_id = ''reu-intended-use'', rule_name = ''Intended Use'', category = ''description'',
      weight = 3, severity = ''suggestion'', check = chk ''reu-intended-use'',
      recommendation = ''Document intended use cases.''\<rparr>\<close>

definition rule_reu_variables :: "(string \<Rightarrow> check_fun) \<Rightarrow> rule" where
  \<open>rule_reu_variables chk =
     \<lparr>rule_id = ''reu-variables'', rule_name = ''Variable Definitions'', category = ''description'',
      weight = 5, severity = ''important'', check = chk ''reu-variables'',
      recommendation = ''Provide definitions for all variables/columns.''\<rparr>\<close>

definition rule_reu_units :: "(string \<Rightarrow> check_fun) \<Rightarrow> rule" where
  \<open>rule_reu_units chk =
     \<lparr>rule_id = ''reu-units'', rule_name = ''Units Specified'', category = ''description'',
      weight = 2, severity = ''suggestion'', check = chk ''reu-units'',
      recommendation = ''Specify units of measurement for numeric data.''\<rparr>\<close>

definition reusabilityRules :: "(string \<Rightarrow> check_fun) \<Rightarrow> rule list" where
  "reusabilityRules chk =
     [rule_reu_license_reuse chk, rule_reu_methodology chk, rule_reu_processing chk,
      rule_reu_quality_metrics chk, rule_reu_limitations chk, rule_reu_sample_data chk,
      rule_reu_update_frequency chk, rule_reu_intended_use chk, rule_reu_variables chk,
      rule_reu_units chk]"

definition rawRules :: "(string \<Rightarrow> check_fun) \<Rightarrow> rule list" where
  "rawRules chk =
     identificationRules chk @ descriptionRules chk @ licenseRules chk @ keywordRules chk @
     provenanceRules chk @ accessibilityRules chk @ interoperabilityRules chk @
     citationRules chk @ reusabilityRules chk"

text \<open>\<^verbatim>\<open>Array.prototype.find\<close> is \<^const>\<open>List.find\<close>; \<^verbatim>\<open>findIndex\<close> gives \<open>None\<close> for \<^verbatim>\<open>-1\<close>.\<close>

fun findIndex :: "('a \<Rightarrow> bool) \<Rightarrow> 'a list \<Rightarrow> nat option" where
  "findIndex P [] = None"
| "findIndex P (x # xs) = (if P x then Some 0 else map_option Suc (findIndex P xs))"

text \<open>
  \<^verbatim>\<open>deduplicateRules\<close>: one step of the loop on the state (\<open>seen\<close>, \<open>deduplicated\<close>).  The
  function has no \<^verbatim>\<open>throw\<close> and validates nothing: ids, categories and weights are taken
  as they come.
\<close>

definition signature_of :: "rule \<Rightarrow> string" where
  "signature_of rule = category rule @ ''-'' @ replace_ws (toLowerCase (rule_name rule))"

definition dedup_step ::
  "(string \<rightharpoonup> rule) \<times> rule list \<Rightarrow> rule \<Rightarrow> (string \<rightharpoonup> rule) \<times> rule list" where
  "dedup_step st rule =
     (let seen = fst st; deduplicated = snd st; signature = signature_of rule
      in case seen signature of
           Some existing \<Rightarrow>
             if weight rule > weight existing then
               (case findIndex (\<lambda>r. rule_id r = rule_id existing) deduplicated of
                  Some idx \<Rightarrow> (seen(signature \<mapsto> rule), deduplicated[idx := rule])
                | None \<Rightarrow> (seen(signature \<mapsto> rule), deduplicated))
             else (seen, deduplicated)
         | None \<Rightarrow> (seen(signature \<mapsto> rule), deduplicated @ [rule]))"

definition deduplicateRules :: "rule list \<Rightarrow> rule list" where
  "deduplicateRules rules = snd (foldl dedup_step (Map.empty, []) rules)"

definition allRules :: "(string \<Rightarrow> check_fun) \<Rightarrow> rule list" where
  "allRules chk = deduplicateRules (rawRules chk)"

definition MAIN_CATEGORIES :: "string list" where
  "MAIN_CATEGORIES = [''identification'', ''description'', ''legal'', ''provenance'']"

definition getCategories :: "string list" where
  "getCategories = MAIN_CATEGORIES"

definition getTotalWeight :: "rule list \<Rightarrow> int" where
  "getTotalWeight rules = foldl (\<lambda>sum rule. sum + weight rule) 0 rules"

text \<open>\<^verbatim>\<open>getCategoryWeights\<close>: only a rule whose category is literally one of the four keys adds
  its weight.  Own properties only: a category that names a property inherited from
  \<^verbatim>\<open>Object.prototype\<close> is outside the model.\<close>

definition getCategoryWeights :: "rule list \<Rightarrow> (string \<times> int) list" where
  "getCategoryWeights rules =
     foldl (\<lambda>categories rule.
              case map_of categories (category rule) of
                Some w \<Rightarrow> AList.update (category rule) (w + weight rule) categories
              | None \<Rightarrow> categories)
           (map (\<lambda>cat. (cat, 0)) MAIN_CATEGORIES) rules"

section \<open>Score calculator\<close>

record rule_result =
  ruleId :: string
  ruleName :: string
  res_category :: string
  passed :: bool
  res_value :: jsvalue
  message :: string

definition normalizeCategory :: "string \<Rightarrow> string" where
  "normalizeCategory c =
     (let cat = toLowerCase c;
          mainCategories = [''identification'', ''description'', ''legal'', ''provenance''];
          mapping = [(''accessibility'', ''provenance''), (''interoperability'', ''description''),
                     (''citation'', ''identification''), (''reusability'', ''description'')]
      in if cat \<in> set mainCategories then cat
         else (case map_of mapping cat of Some m \<Rightarrow> m | None \<Rightarrow> ''description''))"

text \<open>\<^verbatim>\<open>d[k] || 0\<close> on a dictionary of numbers.\<close>

definition get_or0 :: "(string \<times> int) list \<Rightarrow> string \<Rightarrow> int" where
  "get_or0 d k = (case map_of d k of Some v \<Rightarrow> v | None \<Rightarrow> 0)"

text \<open>\<^verbatim>\<open>Math.round((a / b) * 100)\<close>.\<close>

definition percentage :: "int \<Rightarrow> int \<Rightarrow> number" where
  "percentage a b = Math_round (js_times (js_div (of_int a) (of_int b)) 100)"

text \<open>The loop over \<^verbatim>\<open>ruleResults\<close>, on the state (\<open>totalEarned\<close>, \<open>categoryEarned\<close>).\<close>

definition earn_step ::
  "rule list \<Rightarrow> int \<times> (string \<times> int) list \<Rightarrow> rule_result \<Rightarrow> int \<times> (string \<times> int) list" where
  "earn_step rules st result =
     (let totalEarned = fst st; categoryEarned = snd st
      in case find (\<lambda>r. rule_id r = ruleId result) rules of
           None \<Rightarrow> st
         | Some rule \<Rightarrow>
             let normalizedCategory = normalizeCategory (category rule)
             in if passed result
                then (totalEarned + weight rule,
                      AList.update normalizedCategory
                        (get_or0 categoryEarned normalizedCategory + weight rule) categoryEarned)
                else st)"

record score_details =
  total_weight :: int
  total_earned :: int
  category_weights :: "(string \<times> int) list"
  category_earned :: "(string \<times> int) list"

record scores =
  overall_score :: number
  categories :: "(string \<times> number) list"
  details :: score_details

definition calculateScores :: "rule list \<Rightarrow> rule_result list \<Rightarrow> scores" where
  "calculateScores rules ruleResults =
     (let totalWeight = getTotalWeight rules;
          categoryWeights = getCategoryWeights rules;
          cats = getCategories;
          categoryMax = map (\<lambda>cat. (cat, get_or0 categoryWeights cat)) cats;
          st = foldl (earn_step rules) (0, map (\<lambda>cat. (cat, 0)) cats) ruleResults;
          totalEarned = fst st;
          categoryEarned = snd st;
          overallScore = (if totalWeight > 0 then percentage totalEarned totalWeight else Fin 0);
          categoryScores =
            map (\<lambda>cat. let mx = get_or0 categoryMax cat; earned = get_or0 categoryEarned cat
                        in (cat, if mx > 0 then percentage earned mx else Fin 100)) cats
      in \<lparr>overall_score = overallScore, categories = categoryScores,
          details = \<lparr>total_weight = totalWeight, total_earned = totalEarned,
                     category_weights = categoryWeights, category_earned = categoryEarned\<rparr>\<rparr>)"

record grade_info =
  grade :: string
  label :: string
  description :: string
  color :: string

definition getScoreGrade :: "number \<Rightarrow> grade_info" where
  "getScoreGrade score =
     (if js_ge score 90 then
        \<lparr>grade = ''A'', label = ''Excellent'',
         description = ''Metadata quality is excellent and meets or exceeds all standards.'',
         color = ''#22c55e''\<rparr>
      else if js_ge score 80 then
        \<lparr>grade = ''B'', label = ''Good'',
         description = ''Metadata quality is good with minor improvements recommended.'',
         color = ''#84cc16''\<rparr>
      else if js_ge score 70 then
        \<lparr>grade = ''C'', label = ''Acceptable'',
         description = ''Metadata quality is acceptable but could benefit from improvements.'',
         color = ''#eab308''\<rparr>
      else if js_ge score 60 then
        \<lparr>grade = ''D'', label = ''Needs Improvement'',
         description = ''Metadata quality needs improvement to meet recommended standards.'',
         color = ''#f97316''\<rparr>
      else
        \<lparr>grade = ''F'', label = ''Poor'',
         description = ''Metadata quality is poor and requires significant improvements.'',
         color = ''#ef4444''\<rparr>)"

section \<open>Rule evaluator\<close>

text \<open>\<^verbatim>\<open>evaluateRules\<close>: the body of the loop is the \<^verbatim>\<open>try\<close>/\<^verbatim>\<open>catch\<close> around one rule's check.
  The checks are taken as pure functions of the record.\<close>

definition evaluate_rule :: "jsvalue \<Rightarrow> rule \<Rightarrow> rule_result" where
  "evaluate_rule metadata rule =
     (case check rule metadata of
        Inr checkResult \<Rightarrow>
          \<lparr>ruleId = rule_id rule, ruleName = rule_name rule, res_category = category rule,
           passed = cr_passed checkResult, res_value = cr_value checkResult,
           message = cr_message checkResult\<rparr>
      | Inl error_message \<Rightarrow>
          \<lparr>ruleId = rule_id rule, ruleName = rule_name rule, res_category = category rule,
           passed = False, res_value = JNull,
           message = ''Rule evaluation error: '' @ error_message\<rparr>)"

definition evaluateRules :: "rule list \<Rightarrow> jsvalue \<Rightarrow> rule_result list" where
  "evaluateRules rules metadata =
     foldl (\<lambda>results rule. results @ [evaluate_rule metadata rule]) [] rules"

section \<open>Sorting and slicing\<close>

text \<open>
  \<^verbatim>\<open>Array.prototype.sort\<close> with a comparator is a stable sort: an element goes before the
  elements it does not compare greater than, and elements that compare equal keep their
  order.  It is modelled as the stable insertion sort.
\<close>

fun js_insert :: "('a \<Rightarrow> 'a \<Rightarrow> int) \<Rightarrow> 'a \<Rightarrow> 'a list \<Rightarrow> 'a list" where
  "js_insert cmp x [] = [x]"
| "js_insert cmp x (y # ys) = (if cmp x y \<le> 0 then x # y # ys else y # js_insert cmp x ys)"

definition js_sort :: "('a \<Rightarrow> 'a \<Rightarrow> int) \<Rightarrow> 'a list \<Rightarrow> 'a list" where
  "js_sort cmp xs = foldr (js_insert cmp) xs []"

text \<open>\<^verbatim>\<open>xs.slice(0, n)\<close>: a negative \<open>n\<close> counts from the end.\<close>

definition slice0 :: "int \<Rightarrow> 'a list \<Rightarrow> 'a list" where
  "slice0 n xs = (if n \<ge> 0 then take (nat n) xs else take (length xs - nat (- n)) xs)"

section \<open>Recommendation generator\<close>

definition SEVERITY_WEIGHTS :: "(string \<times> int) list" where
  "SEVERITY_WEIGHTS = [(''critical'', 4), (''important'', 3), (''warning'', 2), (''suggestion'', 1)]"

definition CATEGORY_NAMES :: "(string \<times> string) list" where
  "CATEGORY_NAMES =
     [(''identification'', ''Identification & Attribution''),
      (''description'', ''Description & Discoverability''),
      (''legal'', ''Legal & Licensing''),
      (''provenance'', ''Provenance & Access'')]"

text \<open>\<^verbatim>\<open>d[k] || dflt\<close> on a table of numbers, and \<^verbatim>\<open>s || dflt\<close> on a string.\<close>

definition lookup_or :: "(string \<times> int) list \<Rightarrow> string \<Rightarrow> int \<Rightarrow> int" where
  "lookup_or d k dflt = (case map_of d k of Some v \<Rightarrow> (if v = 0 then dflt else v) | None \<Rightarrow> dflt)"

definition str_or :: "string \<Rightarrow> string \<Rightarrow> string" where
  "str_or s dflt = (if s = [] then dflt else s)"

definition calculatePriorityScore :: "rule option \<Rightarrow> int" where
  "calculatePriorityScore r =
     (case r of None \<Rightarrow> 0
      | Some rule \<Rightarrow> (let severityWeight = lookup_or SEVERITY_WEIGHTS (severity rule) 1
                      in weight rule * severityWeight))"

text \<open>A failed outcome with the details of its rule.  The fields of the outcome come first
  (\<^verbatim>\<open>...result\<close>); \<^verbatim>\<open>ruleName\<close> and \<^verbatim>\<open>category\<close> are overwritten.\<close>

record enriched_simple = rule_result +
  e_weight :: int
  e_severity :: string
  e_recommendation :: string

record enriched = enriched_simple +
  priorityScore :: int

definition enrich :: "rule list \<Rightarrow> rule_result \<Rightarrow> enriched" where
  "enrich rules result =
     (let r = find (\<lambda>r. rule_id r = ruleId result) rules
      in \<lparr>ruleId = ruleId result,
          ruleName = (case r of Some rule \<Rightarrow> str_or (rule_name rule) (ruleId result)
                      | None \<Rightarrow> ruleId result),
          res_category = (case r of Some rule \<Rightarrow> str_or (category rule) ''unknown''
                          | None \<Rightarrow> ''unknown''),
          passed = passed result, res_value = res_value result, message = message result,
          e_weight = (case r of Some rule \<Rightarrow> weight rule | None \<Rightarrow> 0),
          e_severity = (case r of Some rule \<Rightarrow> str_or (severity rule) ''suggestion''
                        | None \<Rightarrow> ''suggestion''),
          e_recommendation = (case r of Some rule \<Rightarrow>
                                str_or (recommendation rule) ''Review and improve this field.''
                              | None \<Rightarrow> ''Review and improve this field.''),
          priorityScore = calculatePriorityScore r\<rparr>)"

record item =
  it_rule :: string
  it_severity :: string
  it_issue :: string
  it_recommendation :: string
  it_weight :: int
  isPriority :: bool

record category_group =
  g_category :: string
  displayName :: string
  items :: "item list"
  totalIssues :: nat
  criticalCount :: nat
  importantCount :: nat

record priority_action =
  action :: string
  a_severity :: string
  a_category :: string

record flat_recommendation =
  priority :: nat
  f_rule :: string
  f_category :: string
  f_severity :: string
  f_issue :: string
  f_action :: string
  potentialGain :: int

text \<open>The two shapes of the result.  The formatted texts (\<^verbatim>\<open>summary\<close>, \<^verbatim>\<open>impact\<close>) are
  left out.\<close>

datatype recommendations =
    Grouped (grouped_categories: "category_group list") (priorityActions: "priority_action list")
  | Flat (flat_recommendations: "flat_recommendation list") (flat_totalIssues: nat)

text \<open>The comparator of the items of a group and of \<^verbatim>\<open>generateSimpleRecommendations\<close>:
  severity first, then weight.\<close>

definition severity_then_weight :: "string \<Rightarrow> int \<Rightarrow> string \<Rightarrow> int \<Rightarrow> int" where
  "severity_then_weight a_sev a_w b_sev b_w =
     (let severityDiff = lookup_or SEVERITY_WEIGHTS b_sev 0 - lookup_or SEVERITY_WEIGHTS a_sev 0
      in if severityDiff \<noteq> 0 then severityDiff else b_w - a_w)"

definition group_step ::
  "enriched list \<Rightarrow> (string \<times> category_group) list \<Rightarrow> enriched
     \<Rightarrow> (string \<times> category_group) list" where
  "group_step topResults byCategory result =
     (let cat = res_category result;
          g = (case map_of byCategory cat of
                 Some g \<Rightarrow> g
               | None \<Rightarrow> \<lparr>g_category = cat,
                           displayName = (case map_of CATEGORY_NAMES cat of
                                            Some n \<Rightarrow> str_or n cat | None \<Rightarrow> cat),
                           items = [], totalIssues = 0, criticalCount = 0,
                           importantCount = 0\<rparr>);
          it = \<lparr>it_rule = ruleName result, it_severity = e_severity result,
                it_issue = message result, it_recommendation = e_recommendation result,
                it_weight = e_weight result,
                isPriority = list_ex (\<lambda>r. ruleId r = ruleId result) topResults\<rparr>
      in AList.update cat
           (g\<lparr>items := items g @ [it],
              totalIssues := totalIssues g + 1,
              criticalCount := criticalCount g + (if e_severity result = ''critical'' then 1 else 0),
              importantCount := importantCount g + (if e_severity result = ''important'' then 1 else 0)\<rparr>)
           byCategory)"

definition generateGroupedRecommendations :: "enriched list \<Rightarrow> enriched list \<Rightarrow> recommendations" where
  "generateGroupedRecommendations topResults allFailedResults =
     (let byCategory = foldl (group_step topResults) [] allFailedResults;
          sortedCategories =
            js_sort (\<lambda>a b. (int (criticalCount b) * 4 + int (importantCount b) * 2)
                           - (int (criticalCount a) * 4 + int (importantCount a) * 2))
                    (map snd byCategory);
          sortedItems =
            map (\<lambda>cat. cat\<lparr>items :=
                   js_sort (\<lambda>a b. severity_then_weight (it_severity a) (it_weight a)
                                                          (it_severity b) (it_weight b))
                           (items cat)\<rparr>) sortedCategories
      in Grouped sortedItems
           (map (\<lambda>r. \<lparr>action = e_recommendation r, a_severity = e_severity r,
                       a_category = res_category r\<rparr>) topResults))"

definition generateFlatRecommendations :: "enriched list \<Rightarrow> enriched list \<Rightarrow> recommendations" where
  "generateFlatRecommendations topResults allFailedResults =
     Flat (map (\<lambda>(index, r). \<lparr>priority = index + 1, f_rule = ruleName r,
                                f_category = res_category r, f_severity = e_severity r,
                                f_issue = message r, f_action = e_recommendation r,
                                potentialGain = e_weight r\<rparr>)
               (enumerate 0 topResults))
          (length allFailedResults)"

record options =
  maxRecommendations :: int
  groupByCategory :: bool

definition default_options :: options where
  "default_options = \<lparr>maxRecommendations = 10, groupByCategory = True\<rparr>"

text \<open>The failed outcomes, enriched and sorted by priority score: the array both result
  shapes are built from.\<close>

definition prioritized :: "rule list \<Rightarrow> rule_result list \<Rightarrow> enriched list" where
  "prioritized rules ruleResults =
     (let failedResults = filter (\<lambda>r. \<not> passed r) ruleResults;
          enrichedResults = map (enrich rules) failedResults
      in js_sort (\<lambda>a b. priorityScore b - priorityScore a) enrichedResults)"

definition generateRecommendations :: "rule list \<Rightarrow> rule_result list \<Rightarrow> options \<Rightarrow> recommendations" where
  "generateRecommendations rules ruleResults opts =
     (let enrichedResults = prioritized rules ruleResults;
          topResults = slice0 (maxRecommendations opts) enrichedResults
      in if groupByCategory opts
         then generateGroupedRecommendations topResults enrichedResults
         else generateFlatRecommendations topResults enrichedResults)"

definition enrich_simple :: "rule list \<Rightarrow> rule_result \<Rightarrow> enriched_simple" where
  "enrich_simple rules result =
     (let r = find (\<lambda>r. rule_id r = ruleId result) rules
      in \<lparr>ruleId = ruleId result, ruleName = ruleName result,
          res_category = res_category result, passed = passed result,
          res_value = res_value result, message = message result,
          e_weight = (case r of Some rule \<Rightarrow> weight rule | None \<Rightarrow> 0),
          e_severity = (case r of Some rule \<Rightarrow> str_or (severity rule) ''suggestion''
                        | None \<Rightarrow> ''suggestion''),
          e_recommendation = (case r of Some rule \<Rightarrow>
                                str_or (recommendation rule) ''Review and improve this field.''
                              | None \<Rightarrow> ''Review and improve this field.'')\<rparr>)"

definition simple_ranking :: "rule list \<Rightarrow> rule_result list \<Rightarrow> enriched_simple list" where
  "simple_ranking rules ruleResults =
     js_sort (\<lambda>a b. severity_then_weight (e_severity a) (e_weight a) (e_severity b) (e_weight b))
             (map (enrich_simple rules) (filter (\<lambda>r. \<not> passed r) ruleResults))"

definition generateSimpleRecommendations :: "rule list \<Rightarrow> rule_result list \<Rightarrow> int \<Rightarrow> string list" where
  "generateSimpleRecommendations rules ruleResults limit =
     map e_recommendation (slice0 limit (simple_ranking rules ruleResults))"

section \<open>Score summary\<close>

record improvement =
  imp_ruleId :: string
  imp_name :: string
  imp_weight :: int
  imp_severity :: string
  imp_message :: string
  imp_recommendation :: string

definition severityOrder :: "(string \<times> int) list" where
  "severityOrder = [(''critical'', 0), (''important'', 1), (''warning'', 2), (''suggestion'', 3)]"

definition improvement_of :: "rule list \<Rightarrow> rule_result \<Rightarrow> improvement" where
  "improvement_of rules result =
     (let r = find (\<lambda>r. rule_id r = ruleId result) rules
      in \<lparr>imp_ruleId = ruleId result,
          imp_name = (case r of Some rule \<Rightarrow> str_or (rule_name rule) (ruleId result)
                      | None \<Rightarrow> ruleId result),
          imp_weight = (case r of Some rule \<Rightarrow> weight rule | None \<Rightarrow> 0),
          imp_severity = (case r of Some rule \<Rightarrow> str_or (severity rule) ''suggestion''
                          | None \<Rightarrow> ''suggestion''),
          imp_message = message result,
          imp_recommendation = (case r of Some rule \<Rightarrow>
                                  str_or (recommendation rule) ''Review and improve this field.''
                                | None \<Rightarrow> ''Review and improve this field.'')\<rparr>)"

text \<open>The comparator of \<^verbatim>\<open>getImprovementPotential\<close>, as written:
  \<^verbatim>\<open>(severityOrder[a.severity] || 3) - (severityOrder[b.severity] || 3)\<close>, then
  \<^verbatim>\<open>b.weight - a.weight\<close>.\<close>

definition improvement_cmp :: "improvement \<Rightarrow> improvement \<Rightarrow> int" where
  "improvement_cmp a b =
     (let sevDiff = lookup_or severityOrder (imp_severity a) 3
                    - lookup_or severityOrder (imp_severity b) 3
      in if sevDiff \<noteq> 0 then sevDiff else imp_weight b - imp_weight a)"

definition getImprovementPotential :: "rule list \<Rightarrow> rule_result list \<Rightarrow> improvement list" where
  "getImprovementPotential rules ruleResults =
     (let failedRules = filter (\<lambda>r. \<not> passed r) ruleResults
      in js_sort improvement_cmp (map (improvement_of rules) failedRules))"

text \<open>\<^verbatim>\<open>getCategoryPriority\<close> sorts by \<^verbatim>\<open>a.score - b.score\<close>; a comparator result of NaN counts
  as 0.\<close>

fun score_diff_sign :: "number \<Rightarrow> number \<Rightarrow> int" where
  "score_diff_sign (Fin x) (Fin y) = sgn \<lfloor>sgn (x - y)\<rfloor>"
| "score_diff_sign NaN _ = 0"
| "score_diff_sign _ NaN = 0"
| "score_diff_sign PosInf PosInf = 0"
| "score_diff_sign NegInf NegInf = 0"
| "score_diff_sign PosInf _ = 1"
| "score_diff_sign _ PosInf = - 1"
| "score_diff_sign NegInf _ = - 1"
| "score_diff_sign _ NegInf = 1"

definition getCategoryPriority :: "(string \<times> number) list \<Rightarrow> (string \<times> number) list" where
  "getCategoryPriority categoryScores = js_sort (\<lambda>a b. score_diff_sign (snd a) (snd b)) categoryScores"

record summary_counts =
  total_rules :: nat
  passed_count :: nat
  failed_count :: nat
  pass_rate :: number

record score_summary = scores +
  summary_grade :: grade_info
  summary :: summary_counts
  category_priority :: "(string \<times> number) list"
  top_improvements :: "improvement list"

definition calculateScoreSummary :: "rule list \<Rightarrow> rule_result list \<Rightarrow> score_summary" where
  "calculateScoreSummary rules ruleResults =
     (let sc = calculateScores rules ruleResults;
          grade = getScoreGrade (overall_score sc);
          priority = getCategoryPriority (categories sc);
          improvements = getImprovementPotential rules ruleResults;
          passedCount = length (filter (\<lambda>r. passed r) ruleResults);
          failedCount = length (filter (\<lambda>r. \<not> passed r) ruleResults)
      in \<lparr>overall_score = overall_score sc, categories = categories sc, details = details sc,
          summary_grade = grade,
          summary = \<lparr>total_rules = length ruleResults, passed_count = passedCount,
                     failed_count = failedCount,
                     pass_rate = Math_round (js_times (js_div (of_nat passedCount)
                                                             (of_nat (length ruleResults))) 100)\<rparr>,
          category_priority = priority,
          top_improvements = slice0 5 improvements\<rparr>)"

section \<open>Normalizer\<close>

text \<open>
  What the normalizer takes from the JavaScript library: \<^verbatim>\<open>String(v)\<close> on a value that is
  not a string, the time value of \<^verbatim>\<open>new Date(s)\<close> (\<open>None\<close> for an invalid date), and
  \<^verbatim>\<open>toISOString\<close>.  None of them throws on the values modelled here.
\<close>

record js_library =
  String_of :: "jsvalue \<Rightarrow> string"
  Date_parse :: "string \<Rightarrow> int option"
  toISOString :: "int \<Rightarrow> string"

definition js_String :: "js_library \<Rightarrow> jsvalue \<Rightarrow> string" where
  "js_String lib v = (case v of JStr s \<Rightarrow> s | _ \<Rightarrow> String_of lib v)"

fun truthy :: "jsvalue \<Rightarrow> bool" where
  "truthy JUndefined = False"
| "truthy JNull = False"
| "truthy (JBool b) = b"
| "truthy (JNum n) = (n \<noteq> Fin 0 \<and> n \<noteq> NaN)"
| "truthy (JStr s) = (s \<noteq> [])"
| "truthy (JArr xs) = True"
| "truthy (JObj fs) = True"

text \<open>Reading a property (\<^verbatim>\<open>undefined\<close> when the object has none of that name) and
  writing one (in place when it exists, appended otherwise).\<close>

definition get_prop :: "(string \<times> jsvalue) list \<Rightarrow> string \<Rightarrow> jsvalue" where
  "get_prop fs k = (case map_of fs k of Some v \<Rightarrow> v | None \<Rightarrow> JUndefined)"

definition set_prop :: "string \<Rightarrow> jsvalue \<Rightarrow> (string \<times> jsvalue) list \<Rightarrow> (string \<times> jsvalue) list" where
  "set_prop k v fs = AList.update k v fs"

definition stringFields :: "string list" where
  "stringFields =
     [''title'', ''description'', ''license'', ''publisher'',
      ''methodology'', ''funding'', ''spatial_coverage'',
      ''version'', ''doi'', ''access_url'', ''contact_email'']"

definition arrayFields :: "string list" where
  "arrayFields = [''authors'', ''keywords'', ''data_format'', ''citations'', ''related_datasets'']"

definition normalize_string_field :: "(string \<times> jsvalue) list \<Rightarrow> string \<Rightarrow> (string \<times> jsvalue) list" where
  "normalize_string_field normalized field =
     (case get_prop normalized field of
        JStr s \<Rightarrow>
          (let n1 = set_prop field (JStr (trim s)) normalized
           in if get_prop n1 field = JStr [] then set_prop field JUndefined n1 else n1)
      | _ \<Rightarrow> normalized)"

definition trim_item :: "jsvalue \<Rightarrow> jsvalue" where
  "trim_item item = (case item of JStr s \<Rightarrow> JStr (trim s) | _ \<Rightarrow> item)"

definition keep_item :: "jsvalue \<Rightarrow> bool" where
  "keep_item item = (item \<noteq> JStr [] \<and> item \<noteq> JNull \<and> item \<noteq> JUndefined)"

definition normalize_array_field :: "(string \<times> jsvalue) list \<Rightarrow> string \<Rightarrow> (string \<times> jsvalue) list" where
  "normalize_array_field normalized field =
     (case get_prop normalized field of
        JArr xs \<Rightarrow>
          (let ys = filter keep_item (map trim_item xs);
               n1 = set_prop field (JArr ys) normalized
           in if length ys = 0 then set_prop field JUndefined n1 else n1)
      | _ \<Rightarrow> normalized)"

text \<open>\<^verbatim>\<open>date.toISOString().split('T')[0]\<close>: the text before the first \<^verbatim>\<open>T\<close>.\<close>

definition iso_date :: "js_library \<Rightarrow> int \<Rightarrow> string" where
  "iso_date lib t = takeWhile (\<lambda>c. c \<noteq> CHR ''T'') (toISOString lib t)"

definition normalize_publication_date :: "js_library \<Rightarrow> (string \<times> jsvalue) list \<Rightarrow> (string \<times> jsvalue) list" where
  "normalize_publication_date lib normalized =
     (if truthy (get_prop normalized ''publication_date'') then
        (let dateStr = trim (js_String lib (get_prop normalized ''publication_date''))
         in case Date_parse lib dateStr of
              Some t \<Rightarrow> set_prop ''publication_date'' (JStr (iso_date lib t)) normalized
            | None \<Rightarrow> normalized)
      else normalized)"

text \<open>Decimal digits of an array index: the spread \<^verbatim>\<open>{ ...rawMetadata }\<close> of an array has
  the indices as property names.\<close>

fun index_name :: "nat \<Rightarrow> string" where
  "index_name n =
     (if n < 10 then [char_of (48 + n)] else index_name (n div 10) @ [char_of (48 + n mod 10)])"

definition spread :: "jsvalue \<Rightarrow> (string \<times> jsvalue) list" where
  "spread v =
     (case v of
        JObj fs \<Rightarrow> fs
      | JArr xs \<Rightarrow> map (\<lambda>(i, x). (index_name i, x)) (enumerate 0 xs)
      | _ \<Rightarrow> [])"

definition is_object :: "jsvalue \<Rightarrow> bool" where
  "is_object v = (case v of JObj fs \<Rightarrow> True | JArr xs \<Rightarrow> True | _ \<Rightarrow> False)"

definition normalizeMetadata :: "js_library \<Rightarrow> jsvalue \<Rightarrow> jsvalue" where
  "normalizeMetadata lib rawMetadata =
     (if \<not> is_object rawMetadata then JObj []
      else (let n0 = spread rawMetadata;
                n1 = foldl normalize_string_field n0 stringFields;
                n2 = foldl normalize_array_field n1 arrayFields
            in JObj (normalize_publication_date lib n2)))"

section \<open>Evaluation pipeline\<close>

text \<open>\<^verbatim>\<open>evaluateMetadata\<close>.  The schema validation (an external validator) and the elapsed
  time are left out; they do not enter the scores.\<close>

record evaluation =
  ev_overall_score :: number
  ev_grade :: grade_info
  ev_categories :: "(string \<times> number) list"
  ev_summary :: summary_counts
  ev_recommendations :: "string list"
  ev_rule_results :: "rule_result list option"
  ev_category_priority :: "(string \<times> number) list option"
  ev_top_improvements :: "improvement list option"

definition evaluateMetadata ::
  "js_library \<Rightarrow> rule list \<Rightarrow> jsvalue \<Rightarrow> bool \<Rightarrow> int \<Rightarrow> evaluation" where
  "evaluateMetadata lib rules rawMetadata includeRuleDetails maxRecs =
     (let metadata = normalizeMetadata lib rawMetadata;
          ruleResults = evaluateRules rules metadata;
          sc = calculateScoreSummary rules ruleResults;
          recs = generateSimpleRecommendations rules ruleResults maxRecs
      in \<lparr>ev_overall_score = overall_score sc, ev_grade = summary_grade sc,
          ev_categories = categories sc, ev_summary = summary sc,
          ev_recommendations = recs,
          ev_rule_results = (if includeRuleDetails then Some ruleResults else None),
          ev_category_priority = (if includeRuleDetails then Some (category_priority sc) else None),
          ev_top_improvements = (if includeRuleDetails then Some (top_improvements sc) else None)\<rparr>)"

section \<open>The quantities of the specification\<close>

text \<open>
  The specification's words, to be compared with what the code computes.  The total
  weight is the sum of the weights of all rules of the catalogue; the earned weight is the sum,
  over the passed outcomes, of the catalogue weight of the outcome's rule (an outcome whose
  rule id is not in the catalogue earns nothing).
\<close>

definition spec_total_weight :: "rule list \<Rightarrow> int" where
  "spec_total_weight rules = sum_list (map weight rules)"

definition spec_rule_weight :: "rule list \<Rightarrow> rule_result \<Rightarrow> int" where
  "spec_rule_weight rules result =
     (case find (\<lambda>q. rule_id q = ruleId result) rules of Some q \<Rightarrow> weight q | None \<Rightarrow> 0)"

definition spec_earned_weight :: "rule list \<Rightarrow> rule_result list \<Rightarrow> int" where
  "spec_earned_weight rules ruleResults =
     sum_list (map (spec_rule_weight rules) (filter passed ruleResults))"

text \<open>The same two sums over the rules of one category.\<close>

definition spec_category_total :: "rule list \<Rightarrow> string \<Rightarrow> int" where
  "spec_category_total rules cat = sum_list (map weight (filter (\<lambda>q. category q = cat) rules))"

definition spec_in_category :: "rule list \<Rightarrow> string \<Rightarrow> rule_result \<Rightarrow> bool" where
  "spec_in_category rules cat result =
     (case find (\<lambda>q. rule_id q = ruleId result) rules of
        Some q \<Rightarrow> category q = cat | None \<Rightarrow> False)"

definition spec_category_earned :: "rule list \<Rightarrow> rule_result list \<Rightarrow> string \<Rightarrow> int" where
  "spec_category_earned rules ruleResults cat =
     sum_list (map (spec_rule_weight rules)
                   (filter (\<lambda>r. passed r \<and> spec_in_category rules cat r) ruleResults))"

text \<open>A score: an integer from 0 to 100.\<close>

definition is_score :: "number \<Rightarrow> bool" where
  "is_score x = (case x of Fin q \<Rightarrow> 0 \<le> q \<and> q \<le> 100 \<and> of_int \<lfloor>q\<rfloor> = q | _ \<Rightarrow> False)"

text \<open>The integrity of a catalogue as the data model states it: unique ids, one of the four
  categories, positive weights.\<close>

definition spec_catalogue_integrity :: "rule list \<Rightarrow> bool" where
  "spec_catalogue_integrity rules =
     (distinct (map rule_id rules)
      \<and> list_all (\<lambda>q. category q \<in> set MAIN_CATEGORIES \<and> 0 < weight q) rules)"

text \<open>The priority of the specification, \<open>weight \<times> severity multiplier\<close>, and the two sort
  keys of the code: the severity multiplier (0 for an unknown severity) and the rank of
  \<^verbatim>\<open>getImprovementPotential\<close>.\<close>

definition severity_multiplier :: "string \<Rightarrow> int" where
  "severity_multiplier sev = lookup_or SEVERITY_WEIGHTS sev 0"

definition severity_rank :: "string \<Rightarrow> int" where
  "severity_rank sev = lookup_or severityOrder sev 3"

section \<open>Sample inputs\<close>



definition unavailable_checks :: "string \<Rightarrow> check_fun" where
  "unavailable_checks rid metadata = Inl ''check not available''"


text \<open>A failed outcome of a rule, as \<^verbatim>\<open>evaluateRules\<close> tags it.\<close>

definition failed_outcome :: "rule \<Rightarrow> rule_result" where
  "failed_outcome rule =
     \<lparr>ruleId = rule_id rule, ruleName = rule_name rule, res_category = category rule,
      passed = False, res_value = JNull, message = ''failed''\<rparr>"

section \<open>The normalizer, field by field\<close>

text \<open>What the normalizer does to the value of a string field, of an array field and of
  the publication date, and the update of one property of a record by such a function
  (a property the record does not have reads as \<^verbatim>\<open>undefined\<close>, which all three leave alone).\<close>

definition normal_string :: "jsvalue \<Rightarrow> jsvalue" where
  "normal_string v =
     (case v of JStr s \<Rightarrow> (if trim s = [] then JUndefined else JStr (trim s)) | _ \<Rightarrow> v)"

definition normal_array :: "jsvalue \<Rightarrow> jsvalue" where
  "normal_array v =
     (case v of
        JArr xs \<Rightarrow> (if filter keep_item (map trim_item xs) = [] then JUndefined
                    else JArr (filter keep_item (map trim_item xs)))
      | _ \<Rightarrow> v)"

definition normal_date :: "js_library \<Rightarrow> jsvalue \<Rightarrow> jsvalue" where
  "normal_date lib v =
     (if truthy v then
        (case Date_parse lib (trim (js_String lib v)) of
           Some t \<Rightarrow> JStr (iso_date lib t) | None \<Rightarrow> v)
      else v)"

definition modify_prop ::
  "(string \<times> jsvalue) list \<Rightarrow> string \<times> (jsvalue \<Rightarrow> jsvalue) \<Rightarrow> (string \<times> jsvalue) list" where
  "modify_prop fs kg =
     (case map_of fs (fst kg) of
        Some v \<Rightarrow> AList.update (fst kg) (snd kg v) fs
      | None \<Rightarrow> fs)"

definition field_rules :: "js_library \<Rightarrow> (string \<times> (jsvalue \<Rightarrow> jsvalue)) list" where
  "field_rules lib =
     map (\<lambda>f. (f, normal_string)) stringFields @ map (\<lambda>f. (f, normal_array)) arrayFields
     @ [(''publication_date'', normal_date lib)]"

text \<open>
  What idempotence needs of the date library: a canonical date that parses again gives the
  same canonical date.  The JavaScript \<^verbatim>\<open>Date\<close> has this property (the date-only ISO form
  is parsed as UTC midnight of that day).
\<close>

definition date_roundtrip :: "js_library \<Rightarrow> bool" where
  "date_roundtrip lib =
     (\<forall>t t'. Date_parse lib (trim (iso_date lib t)) = Some t' \<longrightarrow> iso_date lib t' = iso_date lib t)"

text \<open>A sample of the library for the examples: it knows two dates and prints every other
  value as an object.\<close>

definition sample_parse :: "string \<Rightarrow> int option" where
  "sample_parse s =
     (if s = ''2024-01-15'' \<or> s = ''January 15, 2024 UTC'' then Some 1705276800000
      else if s = ''1970-01-01'' then Some 0 else None)"

definition sample_iso :: "int \<Rightarrow> string" where
  "sample_iso t =
     (if t = 1705276800000 then ''2024-01-15T00:00:00.000Z'' else ''1970-01-01T00:00:00.000Z'')"

definition sample_string_of :: "jsvalue \<Rightarrow> string" where
  "sample_string_of v = ''[object Object]''"

definition sample_library :: js_library where
  "sample_library =
     \<lparr>String_of = sample_string_of, Date_parse = sample_parse, toISOString = sample_iso\<rparr>"

section \<open>The normalizer on a heap\<close>
















section \<open>Evaluating the catalogue\<close>

text \<open>Lower-casing and white space on a character given by its bits, for evaluation.\<close>

lemma lower_char_Char:
  "lower_char (Char b0 b1 b2 b3 b4 b5 b6 b7) =
     (if (\<not> b7 \<and> b6 \<and> \<not> b5 \<and> (b0 \<or> b1 \<or> b2 \<or> b3 \<or> b4)
            \<and> \<not> (b4 \<and> b3 \<and> (b2 \<or> (b1 \<and> b0))))
         \<or> (b7 \<and> b6 \<and> \<not> b5 \<and> \<not> (b4 \<and> \<not> b3 \<and> b2 \<and> b1 \<and> b0)
            \<and> \<not> (b4 \<and> b3 \<and> b2 \<and> b1 \<and> b0))
      then Char b0 b1 b2 b3 b4 True b6 b7 else Char b0 b1 b2 b3 b4 b5 b6 b7)"
  by (cases b0; cases b1; cases b2; cases b3; cases b4; cases b5; cases b6; cases b7)
     (simp_all add: lower_char_def char_of_def bit_Suc_0_iff)

lemma is_ws_Char:
  "is_ws (Char b0 b1 b2 b3 b4 b5 b6 b7) =
     (Char b0 b1 b2 b3 b4 b5 b6 b7
        \<in> set [CHR 0x09, CHR 0x0A, CHR 0x0B, CHR 0x0C, CHR 0x0D, CHR 0x20, CHR 0xA0])"
  by (simp add: is_ws_def)

lemmas signature_simps = signature_of_def replace_ws_def toLowerCase_def lower_char_Char is_ws_Char

named_theorems catalogue \<open>identifier, category, weight, severity, check and signature of each rule\<close>

lemma rule_title_presence_facts [catalogue]:
  "rule_id (rule_title_presence chk) = ''title-presence''"
  "category (rule_title_presence chk) = ''identification''"
  "weight (rule_title_presence chk) = 15"
  "severity (rule_title_presence chk) = ''critical''"
  "check (rule_title_presence chk) = chk ''title-presence''"
  "signature_of (rule_title_presence chk) = ''identification-title-present''"
  by (simp_all add: rule_title_presence_def signature_simps)

lemma rule_title_length_facts [catalogue]:
  "rule_id (rule_title_length chk) = ''title-length''"
  "category (rule_title_length chk) = ''identification''"
  "weight (rule_title_length chk) = 8"
  "severity (rule_title_length chk) = ''warning''"
  "check (rule_title_length chk) = chk ''title-length''"
  "signature_of (rule_title_length chk) = ''identification-title-length''"
  by (simp_all add: rule_title_length_def signature_simps)

lemma rule_title_not_generic_facts [catalogue]:
  "rule_id (rule_title_not_generic chk) = ''title-not-generic''"
  "category (rule_title_not_generic chk) = ''identification''"
  "weight (rule_title_not_generic chk) = 5"
  "severity (rule_title_not_generic chk) = ''warning''"
  "check (rule_title_not_generic chk) = chk ''title-not-generic''"
  "signature_of (rule_title_not_generic chk) = ''identification-title-not-generic''"
  by (simp_all add: rule_title_not_generic_def signature_simps)

lemma rule_authors_presence_facts [catalogue]:
  "rule_id (rule_authors_presence chk) = ''authors-presence''"
  "category (rule_authors_presence chk) = ''identification''"
  "weight (rule_authors_presence chk) = 10"
  "severity (rule_authors_presence chk) = ''important''"
  "check (rule_authors_presence chk) = chk ''authors-presence''"
  "signature_of (rule_authors_presence chk) = ''identification-authors-listed''"
  by (simp_all add: rule_authors_presence_def signature_simps)

lemma rule_publisher_presence_facts [catalogue]:
  "rule_id (rule_publisher_presence chk) = ''publisher-presence''"
  "category (rule_publisher_presence chk) = ''identification''"
  "weight (rule_publisher_presence chk) = 6"
  "severity (rule_publisher_presence chk) = ''warning''"
  "check (rule_publisher_presence chk) = chk ''publisher-presence''"
  "signature_of (rule_publisher_presence chk) = ''identification-publisher-identified''"
  by (simp_all add: rule_publisher_presence_def signature_simps)

lemma rule_version_present_facts [catalogue]:
  "rule_id (rule_version_present chk) = ''version-present''"
  "category (rule_version_present chk) = ''identification''"
  "weight (rule_version_present chk) = 4"
  "severity (rule_version_present chk) = ''suggestion''"
  "check (rule_version_present chk) = chk ''version-present''"
  "signature_of (rule_version_present chk) = ''identification-version-specified''"
  by (simp_all add: rule_version_present_def signature_simps)

lemma rule_doi_present_facts [catalogue]:
  "rule_id (rule_doi_present chk) = ''doi-present''"
  "category (rule_doi_present chk) = ''identification''"
  "weight (rule_doi_present chk) = 5"
  "severity (rule_doi_present chk) = ''suggestion''"
  "check (rule_doi_present chk) = chk ''doi-present''"
  "signature_of (rule_doi_present chk) = ''identification-doi-available''"
  by (simp_all add: rule_doi_present_def signature_simps)

lemma rule_description_presence_facts [catalogue]:
  "rule_id (rule_description_presence chk) = ''description-presence''"
  "category (rule_description_presence chk) = ''description''"
  "weight (rule_description_presence chk) = 12"
  "severity (rule_description_presence chk) = ''critical''"
  "check (rule_description_presence chk) = chk ''description-presence''"
  "signature_of (rule_description_presence chk) = ''description-description-present''"
  by (simp_all add: rule_description_presence_def signature_simps)

lemma rule_description_length_minimum_facts [catalogue]:
  "rule_id (rule_description_length_minimum chk) = ''description-length-minimum''"
  "category (rule_description_length_minimum chk) = ''description''"
  "weight (rule_description_length_minimum chk) = 10"
  "severity (rule_description_length_minimum chk) = ''important''"
  "check (rule_description_length_minimum chk) = chk ''description-length-minimum''"
  "signature_of (rule_description_length_minimum chk) = ''description-description-minimum-length''"
  by (simp_all add: rule_description_length_minimum_def signature_simps)

lemma rule_description_comprehensive_facts [catalogue]:
  "rule_id (rule_description_comprehensive chk) = ''description-comprehensive''"
  "category (rule_description_comprehensive chk) = ''description''"
  "weight (rule_description_comprehensive chk) = 6"
  "severity (rule_description_comprehensive chk) = ''suggestion''"
  "check (rule_description_comprehensive chk) = chk ''description-comprehensive''"
  "signature_of (rule_description_comprehensive chk) = ''description-description-comprehensive''"
  by (simp_all add: rule_description_comprehensive_def signature_simps)

lemma rule_methodology_present_facts [catalogue]:
  "rule_id (rule_methodology_present chk) = ''methodology-present''"
  "category (rule_methodology_present chk) = ''description''"
  "weight (rule_methodology_present chk) = 8"
  "severity (rule_methodology_present chk) = ''important''"
  "check (rule_methodology_present chk) = chk ''methodology-present''"
  "signature_of (rule_methodology_present chk) = ''description-methodology-documented''"
  by (simp_all add: rule_methodology_present_def signature_simps)

lemma rule_methodology_detailed_facts [catalogue]:
  "rule_id (rule_methodology_detailed chk) = ''methodology-detailed''"
  "category (rule_methodology_detailed chk) = ''description''"
  "weight (rule_methodology_detailed chk) = 4"
  "severity (rule_methodology_detailed chk) = ''suggestion''"
  "check (rule_methodology_detailed chk) = chk ''methodology-detailed''"
  "signature_of (rule_methodology_detailed chk) = ''description-methodology-detailed''"
  by (simp_all add: rule_methodology_detailed_def signature_simps)

lemma rule_data_format_specified_facts [catalogue]:
  "rule_id (rule_data_format_specified chk) = ''data-format-specified''"
  "category (rule_data_format_specified chk) = ''description''"
  "weight (rule_data_format_specified chk) = 5"
  "severity (rule_data_format_specified chk) = ''warning''"
  "check (rule_data_format_specified chk) = chk ''data-format-specified''"
  "signature_of (rule_data_format_specified chk) = ''description-data-format-specified''"
  by (simp_all add: rule_data_format_specified_def signature_simps)

lemma rule_license_presence_facts [catalogue]:
  "rule_id (rule_license_presence chk) = ''license-presence''"
  "category (rule_license_presence chk) = ''legal''"
  "weight (rule_license_presence chk) = 15"
  "severity (rule_license_presence chk) = ''critical''"
  "check (rule_license_presence chk) = chk ''license-presence''"
  "signature_of (rule_license_presence chk) = ''legal-license-present''"
  by (simp_all add: rule_license_presence_def signature_simps)

lemma rule_license_spdx_valid_facts [catalogue]:
  "rule_id (rule_license_spdx_valid chk) = ''license-spdx-valid''"
  "category (rule_license_spdx_valid chk) = ''legal''"
  "weight (rule_license_spdx_valid chk) = 8"
  "severity (rule_license_spdx_valid chk) = ''important''"
  "check (rule_license_spdx_valid chk) = chk ''license-spdx-valid''"
  "signature_of (rule_license_spdx_valid chk) = ''legal-spdx-license-identifier''"
  by (simp_all add: rule_license_spdx_valid_def signature_simps)

lemma rule_license_open_facts [catalogue]:
  "rule_id (rule_license_open chk) = ''license-open''"
  "category (rule_license_open chk) = ''legal''"
  "weight (rule_license_open chk) = 5"
  "severity (rule_license_open chk) = ''suggestion''"
  "check (rule_license_open chk) = chk ''license-open''"
  "signature_of (rule_license_open chk) = ''legal-open-data-license''"
  by (simp_all add: rule_license_open_def signature_simps)

lemma rule_license_not_restrictive_facts [catalogue]:
  "rule_id (rule_license_not_restrictive chk) = ''license-not-restrictive''"
  "category (rule_license_not_restrictive chk) = ''legal''"
  "weight (rule_license_not_restrictive chk) = 3"
  "severity (rule_license_not_restrictive chk) = ''suggestion''"
  "check (rule_license_not_restrictive chk) = chk ''license-not-restrictive''"
  "signature_of (rule_license_not_restrictive chk) = ''legal-license-not-overly-restrictive''"
  by (simp_all add: rule_license_not_restrictive_def signature_simps)

lemma rule_contact_for_licensing_facts [catalogue]:
  "rule_id (rule_contact_for_licensing chk) = ''contact-for-licensing''"
  "category (rule_contact_for_licensing chk) = ''legal''"
  "weight (rule_contact_for_licensing chk) = 4"
  "severity (rule_contact_for_licensing chk) = ''suggestion''"
  "check (rule_contact_for_licensing chk) = chk ''contact-for-licensing''"
  "signature_of (rule_contact_for_licensing chk) = ''legal-contact-information-for-licensing''"
  by (simp_all add: rule_contact_for_licensing_def signature_simps)

lemma rule_keywords_presence_facts [catalogue]:
  "rule_id (rule_keywords_presence chk) = ''keywords-presence''"
  "category (rule_keywords_presence chk) = ''description''"
  "weight (rule_keywords_presence chk) = 8"
  "severity (rule_keywords_presence chk) = ''important''"
  "check (rule_keywords_presence chk) = chk ''keywords-presence''"
  "signature_of (rule_keywords_presence chk) = ''description-keywords-present''"
  by (simp_all add: rule_keywords_presence_def signature_simps)

lemma rule_keywords_minimum_count_facts [catalogue]:
  "rule_id (rule_keywords_minimum_count chk) = ''keywords-minimum-count''"
  "category (rule_keywords_minimum_count chk) = ''description''"
  "weight (rule_keywords_minimum_count chk) = 6"
  "severity (rule_keywords_minimum_count chk) = ''warning''"
  "check (rule_keywords_minimum_count chk) = chk ''keywords-minimum-count''"
  "signature_of (rule_keywords_minimum_count chk) = ''description-minimum-keyword-count''"
  by (simp_all add: rule_keywords_minimum_count_def signature_simps)

lemma rule_keywords_not_excessive_facts [catalogue]:
  "rule_id (rule_keywords_not_excessive chk) = ''keywords-not-excessive''"
  "category (rule_keywords_not_excessive chk) = ''description''"
  "weight (rule_keywords_not_excessive chk) = 2"
  "severity (rule_keywords_not_excessive chk) = ''suggestion''"
  "check (rule_keywords_not_excessive chk) = chk ''keywords-not-excessive''"
  "signature_of (rule_keywords_not_excessive chk) = ''description-keywords-not-excessive''"
  by (simp_all add: rule_keywords_not_excessive_def signature_simps)

lemma rule_keywords_unique_facts [catalogue]:
  "rule_id (rule_keywords_unique chk) = ''keywords-unique''"
  "category (rule_keywords_unique chk) = ''description''"
  "weight (rule_keywords_unique chk) = 3"
  "severity (rule_keywords_unique chk) = ''warning''"
  "check (rule_keywords_unique chk) = chk ''keywords-unique''"
  "signature_of (rule_keywords_unique chk) = ''description-keywords-unique''"
  by (simp_all add: rule_keywords_unique_def signature_simps)

lemma rule_keywords_length_facts [catalogue]:
  "rule_id (rule_keywords_length chk) = ''keywords-length''"
  "category (rule_keywords_length chk) = ''description''"
  "weight (rule_keywords_length chk) = 3"
  "severity (rule_keywords_length chk) = ''suggestion''"
  "check (rule_keywords_length chk) = chk ''keywords-length''"
  "signature_of (rule_keywords_length chk) = ''description-keyword-quality''"
  by (simp_all add: rule_keywords_length_def signature_simps)

lemma rule_keywords_no_generic_facts [catalogue]:
  "rule_id (rule_keywords_no_generic chk) = ''keywords-no-generic''"
  "category (rule_keywords_no_generic chk) = ''description''"
  "weight (rule_keywords_no_generic chk) = 3"
  "severity (rule_keywords_no_generic chk) = ''suggestion''"
  "check (rule_keywords_no_generic chk) = chk ''keywords-no-generic''"
  "signature_of (rule_keywords_no_generic chk) = ''description-keywords-specific''"
  by (simp_all add: rule_keywords_no_generic_def signature_simps)

lemma rule_publication_date_present_facts [catalogue]:
  "rule_id (rule_publication_date_present chk) = ''publication-date-present''"
  "category (rule_publication_date_present chk) = ''provenance''"
  "weight (rule_publication_date_present chk) = 8"
  "severity (rule_publication_date_present chk) = ''important''"
  "check (rule_publication_date_present chk) = chk ''publication-date-present''"
  "signature_of (rule_publication_date_present chk) = ''provenance-publication-date-present''"
  by (simp_all add: rule_publication_date_present_def signature_simps)

lemma rule_publication_date_valid_facts [catalogue]:
  "rule_id (rule_publication_date_valid chk) = ''publication-date-valid''"
  "category (rule_publication_date_valid chk) = ''provenance''"
  "weight (rule_publication_date_valid chk) = 5"
  "severity (rule_publication_date_valid chk) = ''warning''"
  "check (rule_publication_date_valid chk) = chk ''publication-date-valid''"
  "signature_of (rule_publication_date_valid chk) = ''provenance-publication-date-valid''"
  by (simp_all add: rule_publication_date_valid_def signature_simps)

lemma rule_publication_date_not_future_facts [catalogue]:
  "rule_id (rule_publication_date_not_future chk) = ''publication-date-not-future''"
  "category (rule_publication_date_not_future chk) = ''provenance''"
  "weight (rule_publication_date_not_future chk) = 4"
  "severity (rule_publication_date_not_future chk) = ''warning''"
  "check (rule_publication_date_not_future chk) = chk ''publication-date-not-future''"
  "signature_of (rule_publication_date_not_future chk) = ''provenance-publication-date-not-future''"
  by (simp_all add: rule_publication_date_not_future_def signature_simps)

lemma rule_temporal_coverage_present_facts [catalogue]:
  "rule_id (rule_temporal_coverage_present chk) = ''temporal-coverage-present''"
  "category (rule_temporal_coverage_present chk) = ''provenance''"
  "weight (rule_temporal_coverage_present chk) = 5"
  "severity (rule_temporal_coverage_present chk) = ''suggestion''"
  "check (rule_temporal_coverage_present chk) = chk ''temporal-coverage-present''"
  "signature_of (rule_temporal_coverage_present chk) = ''provenance-temporal-coverage-specified''"
  by (simp_all add: rule_temporal_coverage_present_def signature_simps)

lemma rule_spatial_coverage_present_facts [catalogue]:
  "rule_id (rule_spatial_coverage_present chk) = ''spatial-coverage-present''"
  "category (rule_spatial_coverage_present chk) = ''provenance''"
  "weight (rule_spatial_coverage_present chk) = 4"
  "severity (rule_spatial_coverage_present chk) = ''suggestion''"
  "check (rule_spatial_coverage_present chk) = chk ''spatial-coverage-present''"
  "signature_of (rule_spatial_coverage_present chk) = ''provenance-spatial-coverage-specified''"
  by (simp_all add: rule_spatial_coverage_present_def signature_simps)

lemma rule_funding_present_facts [catalogue]:
  "rule_id (rule_funding_present chk) = ''funding-present''"
  "category (rule_funding_present chk) = ''provenance''"
  "weight (rule_funding_present chk) = 4"
  "severity (rule_funding_present chk) = ''suggestion''"
  "check (rule_funding_present chk) = chk ''funding-present''"
  "signature_of (rule_funding_present chk) = ''provenance-funding-acknowledged''"
  by (simp_all add: rule_funding_present_def signature_simps)

lemma rule_access_url_present_facts [catalogue]:
  "rule_id (rule_access_url_present chk) = ''access-url-present''"
  "category (rule_access_url_present chk) = ''provenance''"
  "weight (rule_access_url_present chk) = 6"
  "severity (rule_access_url_present chk) = ''warning''"
  "check (rule_access_url_present chk) = chk ''access-url-present''"
  "signature_of (rule_access_url_present chk) = ''provenance-access-url-provided''"
  by (simp_all add: rule_access_url_present_def signature_simps)

lemma rule_access_url_valid_facts [catalogue]:
  "rule_id (rule_access_url_valid chk) = ''access-url-valid''"
  "category (rule_access_url_valid chk) = ''provenance''"
  "weight (rule_access_url_valid chk) = 3"
  "severity (rule_access_url_valid chk) = ''warning''"
  "check (rule_access_url_valid chk) = chk ''access-url-valid''"
  "signature_of (rule_access_url_valid chk) = ''provenance-access-url-valid-format''"
  by (simp_all add: rule_access_url_valid_def signature_simps)

lemma rule_citations_present_facts [catalogue]:
  "rule_id (rule_citations_present chk) = ''citations-present''"
  "category (rule_citations_present chk) = ''provenance''"
  "weight (rule_citations_present chk) = 3"
  "severity (rule_citations_present chk) = ''suggestion''"
  "check (rule_citations_present chk) = chk ''citations-present''"
  "signature_of (rule_citations_present chk) = ''provenance-citations-listed''"
  by (simp_all add: rule_citations_present_def signature_simps)

lemma rule_acc_url_present_facts [catalogue]:
  "rule_id (rule_acc_url_present chk) = ''acc-url-present''"
  "category (rule_acc_url_present chk) = ''provenance''"
  "weight (rule_acc_url_present chk) = 8"
  "severity (rule_acc_url_present chk) = ''important''"
  "check (rule_acc_url_present chk) = chk ''acc-url-present''"
  "signature_of (rule_acc_url_present chk) = ''provenance-access-url-present''"
  by (simp_all add: rule_acc_url_present_def signature_simps)

lemma rule_acc_url_valid_facts [catalogue]:
  "rule_id (rule_acc_url_valid chk) = ''acc-url-valid''"
  "category (rule_acc_url_valid chk) = ''provenance''"
  "weight (rule_acc_url_valid chk) = 4"
  "severity (rule_acc_url_valid chk) = ''warning''"
  "check (rule_acc_url_valid chk) = chk ''acc-url-valid''"
  "signature_of (rule_acc_url_valid chk) = ''provenance-access-url-valid''"
  by (simp_all add: rule_acc_url_valid_def signature_simps)

lemma rule_acc_format_specified_facts [catalogue]:
  "rule_id (rule_acc_format_specified chk) = ''acc-format-specified''"
  "category (rule_acc_format_specified chk) = ''description''"
  "weight (rule_acc_format_specified chk) = 6"
  "severity (rule_acc_format_specified chk) = ''important''"
  "check (rule_acc_format_specified chk) = chk ''acc-format-specified''"
  "signature_of (rule_acc_format_specified chk) = ''description-data-format-specified''"
  by (simp_all add: rule_acc_format_specified_def signature_simps)

lemma rule_acc_multiple_formats_facts [catalogue]:
  "rule_id (rule_acc_multiple_formats chk) = ''acc-multiple-formats''"
  "category (rule_acc_multiple_formats chk) = ''description''"
  "weight (rule_acc_multiple_formats chk) = 2"
  "severity (rule_acc_multiple_formats chk) = ''suggestion''"
  "check (rule_acc_multiple_formats chk) = chk ''acc-multiple-formats''"
  "signature_of (rule_acc_multiple_formats chk) = ''description-multiple-formats''"
  by (simp_all add: rule_acc_multiple_formats_def signature_simps)

lemma rule_acc_open_format_facts [catalogue]:
  "rule_id (rule_acc_open_format chk) = ''acc-open-format''"
  "category (rule_acc_open_format chk) = ''description''"
  "weight (rule_acc_open_format chk) = 4"
  "severity (rule_acc_open_format chk) = ''warning''"
  "check (rule_acc_open_format chk) = chk ''acc-open-format''"
  "signature_of (rule_acc_open_format chk) = ''description-open-format-available''"
  by (simp_all add: rule_acc_open_format_def signature_simps)

lemma rule_acc_file_size_facts [catalogue]:
  "rule_id (rule_acc_file_size chk) = ''acc-file-size''"
  "category (rule_acc_file_size chk) = ''description''"
  "weight (rule_acc_file_size chk) = 2"
  "severity (rule_acc_file_size chk) = ''suggestion''"
  "check (rule_acc_file_size chk) = chk ''acc-file-size''"
  "signature_of (rule_acc_file_size chk) = ''description-file-size-documented''"
  by (simp_all add: rule_acc_file_size_def signature_simps)

lemma rule_acc_language_facts [catalogue]:
  "rule_id (rule_acc_language chk) = ''acc-language''"
  "category (rule_acc_language chk) = ''description''"
  "weight (rule_acc_language chk) = 3"
  "severity (rule_acc_language chk) = ''suggestion''"
  "check (rule_acc_language chk) = chk ''acc-language''"
  "signature_of (rule_acc_language chk) = ''description-language-specified''"
  by (simp_all add: rule_acc_language_def signature_simps)

lemma rule_acc_documentation_facts [catalogue]:
  "rule_id (rule_acc_documentation chk) = ''acc-documentation''"
  "category (rule_acc_documentation chk) = ''description''"
  "weight (rule_acc_documentation chk) = 6"
  "severity (rule_acc_documentation chk) = ''important''"
  "check (rule_acc_documentation chk) = chk ''acc-documentation''"
  "signature_of (rule_acc_documentation chk) = ''description-documentation-link''"
  by (simp_all add: rule_acc_documentation_def signature_simps)

lemma rule_acc_record_count_facts [catalogue]:
  "rule_id (rule_acc_record_count chk) = ''acc-record-count''"
  "category (rule_acc_record_count chk) = ''description''"
  "weight (rule_acc_record_count chk) = 3"
  "severity (rule_acc_record_count chk) = ''suggestion''"
  "check (rule_acc_record_count chk) = chk ''acc-record-count''"
  "signature_of (rule_acc_record_count chk) = ''description-record-count''"
  by (simp_all add: rule_acc_record_count_def signature_simps)

lemma rule_acc_api_facts [catalogue]:
  "rule_id (rule_acc_api chk) = ''acc-api''"
  "category (rule_acc_api chk) = ''provenance''"
  "weight (rule_acc_api chk) = 2"
  "severity (rule_acc_api chk) = ''suggestion''"
  "check (rule_acc_api chk) = chk ''acc-api''"
  "signature_of (rule_acc_api chk) = ''provenance-api-access''"
  by (simp_all add: rule_acc_api_def signature_simps)

lemma rule_int_schema_defined_facts [catalogue]:
  "rule_id (rule_int_schema_defined chk) = ''int-schema-defined''"
  "category (rule_int_schema_defined chk) = ''description''"
  "weight (rule_int_schema_defined chk) = 6"
  "severity (rule_int_schema_defined chk) = ''important''"
  "check (rule_int_schema_defined chk) = chk ''int-schema-defined''"
  "signature_of (rule_int_schema_defined chk) = ''description-schema-defined''"
  by (simp_all add: rule_int_schema_defined_def signature_simps)

lemma rule_int_standard_vocab_facts [catalogue]:
  "rule_id (rule_int_standard_vocab chk) = ''int-standard-vocab''"
  "category (rule_int_standard_vocab chk) = ''description''"
  "weight (rule_int_standard_vocab chk) = 3"
  "severity (rule_int_standard_vocab chk) = ''suggestion''"
  "check (rule_int_standard_vocab chk) = chk ''int-standard-vocab''"
  "signature_of (rule_int_standard_vocab chk) = ''description-standard-vocabulary''"
  by (simp_all add: rule_int_standard_vocab_def signature_simps)

lemma rule_int_date_iso8601_facts [catalogue]:
  "rule_id (rule_int_date_iso8601 chk) = ''int-date-iso8601''"
  "category (rule_int_date_iso8601 chk) = ''provenance''"
  "weight (rule_int_date_iso8601 chk) = 4"
  "severity (rule_int_date_iso8601 chk) = ''warning''"
  "check (rule_int_date_iso8601 chk) = chk ''int-date-iso8601''"
  "signature_of (rule_int_date_iso8601 chk) = ''provenance-iso-8601-dates''"
  by (simp_all add: rule_int_date_iso8601_def signature_simps)

lemma rule_int_persistent_id_facts [catalogue]:
  "rule_id (rule_int_persistent_id chk) = ''int-persistent-id''"
  "category (rule_int_persistent_id chk) = ''identification''"
  "weight (rule_int_persistent_id chk) = 6"
  "severity (rule_int_persistent_id chk) = ''important''"
  "check (rule_int_persistent_id chk) = chk ''int-persistent-id''"
  "signature_of (rule_int_persistent_id chk) = ''identification-persistent-identifier''"
  by (simp_all add: rule_int_persistent_id_def signature_simps)

lemma rule_int_machine_license_facts [catalogue]:
  "rule_id (rule_int_machine_license chk) = ''int-machine-license''"
  "category (rule_int_machine_license chk) = ''legal''"
  "weight (rule_int_machine_license chk) = 5"
  "severity (rule_int_machine_license chk) = ''warning''"
  "check (rule_int_machine_license chk) = chk ''int-machine-license''"
  "signature_of (rule_int_machine_license chk) = ''legal-machine-readable-license''"
  by (simp_all add: rule_int_machine_license_def signature_simps)

lemma rule_int_encoding_facts [catalogue]:
  "rule_id (rule_int_encoding chk) = ''int-encoding''"
  "category (rule_int_encoding chk) = ''description''"
  "weight (rule_int_encoding chk) = 2"
  "severity (rule_int_encoding chk) = ''suggestion''"
  "check (rule_int_encoding chk) = chk ''int-encoding''"
  "signature_of (rule_int_encoding chk) = ''description-encoding-specified''"
  by (simp_all add: rule_int_encoding_def signature_simps)

lemma rule_int_related_resources_facts [catalogue]:
  "rule_id (rule_int_related_resources chk) = ''int-related-resources''"
  "category (rule_int_related_resources chk) = ''provenance''"
  "weight (rule_int_related_resources chk) = 3"
  "severity (rule_int_related_resources chk) = ''suggestion''"
  "check (rule_int_related_resources chk) = chk ''int-related-resources''"
  "signature_of (rule_int_related_resources chk) = ''provenance-related-resources''"
  by (simp_all add: rule_int_related_resources_def signature_simps)

lemma rule_int_version_pattern_facts [catalogue]:
  "rule_id (rule_int_version_pattern chk) = ''int-version-pattern''"
  "category (rule_int_version_pattern chk) = ''identification''"
  "weight (rule_int_version_pattern chk) = 3"
  "severity (rule_int_version_pattern chk) = ''suggestion''"
  "check (rule_int_version_pattern chk) = chk ''int-version-pattern''"
  "signature_of (rule_int_version_pattern chk) = ''identification-version-pattern''"
  by (simp_all add: rule_int_version_pattern_def signature_simps)

lemma rule_int_spatial_crs_facts [catalogue]:
  "rule_id (rule_int_spatial_crs chk) = ''int-spatial-crs''"
  "category (rule_int_spatial_crs chk) = ''provenance''"
  "weight (rule_int_spatial_crs chk) = 3"
  "severity (rule_int_spatial_crs chk) = ''suggestion''"
  "check (rule_int_spatial_crs chk) = chk ''int-spatial-crs''"
  "signature_of (rule_int_spatial_crs chk) = ''provenance-spatial-reference''"
  by (simp_all add: rule_int_spatial_crs_def signature_simps)

lemma rule_int_namespace_facts [catalogue]:
  "rule_id (rule_int_namespace chk) = ''int-namespace''"
  "category (rule_int_namespace chk) = ''identification''"
  "weight (rule_int_namespace chk) = 2"
  "severity (rule_int_namespace chk) = ''suggestion''"
  "check (rule_int_namespace chk) = chk ''int-namespace''"
  "signature_of (rule_int_namespace chk) = ''identification-identifier-namespace''"
  by (simp_all add: rule_int_namespace_def signature_simps)

lemma rule_cit_doi_present_facts [catalogue]:
  "rule_id (rule_cit_doi_present chk) = ''cit-doi-present''"
  "category (rule_cit_doi_present chk) = ''identification''"
  "weight (rule_cit_doi_present chk) = 4"
  "severity (rule_cit_doi_present chk) = ''warning''"
  "check (rule_cit_doi_present chk) = chk ''cit-doi-present''"
  "signature_of (rule_cit_doi_present chk) = ''identification-doi-present''"
  by (simp_all add: rule_cit_doi_present_def signature_simps)

lemma rule_cit_citation_text_facts [catalogue]:
  "rule_id (rule_cit_citation_text chk) = ''cit-citation-text''"
  "category (rule_cit_citation_text chk) = ''identification''"
  "weight (rule_cit_citation_text chk) = 3"
  "severity (rule_cit_citation_text chk) = ''suggestion''"
  "check (rule_cit_citation_text chk) = chk ''cit-citation-text''"
  "signature_of (rule_cit_citation_text chk) = ''identification-citation-text''"
  by (simp_all add: rule_cit_citation_text_def signature_simps)

lemma rule_cit_author_orcid_facts [catalogue]:
  "rule_id (rule_cit_author_orcid chk) = ''cit-author-orcid''"
  "category (rule_cit_author_orcid chk) = ''identification''"
  "weight (rule_cit_author_orcid chk) = 3"
  "severity (rule_cit_author_orcid chk) = ''suggestion''"
  "check (rule_cit_author_orcid chk) = chk ''cit-author-orcid''"
  "signature_of (rule_cit_author_orcid chk) = ''identification-author-identifiers''"
  by (simp_all add: rule_cit_author_orcid_def signature_simps)

lemma rule_cit_pub_date_facts [catalogue]:
  "rule_id (rule_cit_pub_date chk) = ''cit-pub-date''"
  "category (rule_cit_pub_date chk) = ''provenance''"
  "weight (rule_cit_pub_date chk) = 4"
  "severity (rule_cit_pub_date chk) = ''warning''"
  "check (rule_cit_pub_date chk) = chk ''cit-pub-date''"
  "signature_of (rule_cit_pub_date chk) = ''provenance-publication-date-for-citation''"
  by (simp_all add: rule_cit_pub_date_def signature_simps)

lemma rule_cit_publisher_facts [catalogue]:
  "rule_id (rule_cit_publisher chk) = ''cit-publisher''"
  "category (rule_cit_publisher chk) = ''identification''"
  "weight (rule_cit_publisher chk) = 4"
  "severity (rule_cit_publisher chk) = ''warning''"
  "check (rule_cit_publisher chk) = chk ''cit-publisher''"
  "signature_of (rule_cit_publisher chk) = ''identification-publisher-for-citation''"
  by (simp_all add: rule_cit_publisher_def signature_simps)

lemma rule_cit_version_facts [catalogue]:
  "rule_id (rule_cit_version chk) = ''cit-version''"
  "category (rule_cit_version chk) = ''identification''"
  "weight (rule_cit_version chk) = 3"
  "severity (rule_cit_version chk) = ''warning''"
  "check (rule_cit_version chk) = chk ''cit-version''"
  "signature_of (rule_cit_version chk) = ''identification-citable-version''"
  by (simp_all add: rule_cit_version_def signature_simps)

lemma rule_cit_funding_facts [catalogue]:
  "rule_id (rule_cit_funding chk) = ''cit-funding''"
  "category (rule_cit_funding chk) = ''provenance''"
  "weight (rule_cit_funding chk) = 2"
  "severity (rule_cit_funding chk) = ''suggestion''"
  "check (rule_cit_funding chk) = chk ''cit-funding''"
  "signature_of (rule_cit_funding chk) = ''provenance-funding-for-citation''"
  by (simp_all add: rule_cit_funding_def signature_simps)

lemma rule_cit_publications_facts [catalogue]:
  "rule_id (rule_cit_publications chk) = ''cit-publications''"
  "category (rule_cit_publications chk) = ''provenance''"
  "weight (rule_cit_publications chk) = 3"
  "severity (rule_cit_publications chk) = ''suggestion''"
  "check (rule_cit_publications chk) = chk ''cit-publications''"
  "signature_of (rule_cit_publications chk) = ''provenance-related-publications''"
  by (simp_all add: rule_cit_publications_def signature_simps)

lemma rule_reu_license_reuse_facts [catalogue]:
  "rule_id (rule_reu_license_reuse chk) = ''reu-license-reuse''"
  "category (rule_reu_license_reuse chk) = ''legal''"
  "weight (rule_reu_license_reuse chk) = 6"
  "severity (rule_reu_license_reuse chk) = ''important''"
  "check (rule_reu_license_reuse chk) = chk ''reu-license-reuse''"
  "signature_of (rule_reu_license_reuse chk) = ''legal-license-allows-reuse''"
  by (simp_all add: rule_reu_license_reuse_def signature_simps)

lemma rule_reu_methodology_facts [catalogue]:
  "rule_id (rule_reu_methodology chk) = ''reu-methodology''"
  "category (rule_reu_methodology chk) = ''description''"
  "weight (rule_reu_methodology chk) = 5"
  "severity (rule_reu_methodology chk) = ''warning''"
  "check (rule_reu_methodology chk) = chk ''reu-methodology''"
  "signature_of (rule_reu_methodology chk) = ''description-methodology-documented''"
  by (simp_all add: rule_reu_methodology_def signature_simps)

lemma rule_reu_processing_facts [catalogue]:
  "rule_id (rule_reu_processing chk) = ''reu-processing''"
  "category (rule_reu_processing chk) = ''description''"
  "weight (rule_reu_processing chk) = 4"
  "severity (rule_reu_processing chk) = ''suggestion''"
  "check (rule_reu_processing chk) = chk ''reu-processing''"
  "signature_of (rule_reu_processing chk) = ''description-processing-steps''"
  by (simp_all add: rule_reu_processing_def signature_simps)

lemma rule_reu_quality_metrics_facts [catalogue]:
  "rule_id (rule_reu_quality_metrics chk) = ''reu-quality-metrics''"
  "category (rule_reu_quality_metrics chk) = ''description''"
  "weight (rule_reu_quality_metrics chk) = 3"
  "severity (rule_reu_quality_metrics chk) = ''suggestion''"
  "check (rule_reu_quality_metrics chk) = chk ''reu-quality-metrics''"
  "signature_of (rule_reu_quality_metrics chk) = ''description-quality-metrics''"
  by (simp_all add: rule_reu_quality_metrics_def signature_simps)

lemma rule_reu_limitations_facts [catalogue]:
  "rule_id (rule_reu_limitations chk) = ''reu-limitations''"
  "category (rule_reu_limitations chk) = ''description''"
  "weight (rule_reu_limitations chk) = 4"
  "severity (rule_reu_limitations chk) = ''warning''"
  "check (rule_reu_limitations chk) = chk ''reu-limitations''"
  "signature_of (rule_reu_limitations chk) = ''description-limitations-documented''"
  by (simp_all add: rule_reu_limitations_def signature_simps)

lemma rule_reu_sample_data_facts [catalogue]:
  "rule_id (rule_reu_sample_data chk) = ''reu-sample-data''"
  "category (rule_reu_sample_data chk) = ''description''"
  "weight (rule_reu_sample_data chk) = 2"
  "severity (rule_reu_sample_data chk) = ''suggestion''"
  "check (rule_reu_sample_data chk) = chk ''reu-sample-data''"
  "signature_of (rule_reu_sample_data chk) = ''description-sample-data''"
  by (simp_all add: rule_reu_sample_data_def signature_simps)

lemma rule_reu_update_frequency_facts [catalogue]:
  "rule_id (rule_reu_update_frequency chk) = ''reu-update-frequency''"
  "category (rule_reu_update_frequency chk) = ''provenance''"
  "weight (rule_reu_update_frequency chk) = 2"
  "severity (rule_reu_update_frequency chk) = ''suggestion''"
  "check (rule_reu_update_frequency chk) = chk ''reu-update-frequency''"
  "signature_of (rule_reu_update_frequency chk) = ''provenance-update-frequency''"
  by (simp_all add: rule_reu_update_frequency_def signature_simps)

lemma rule_reu_intended_use_facts [catalogue]:
  "rule_id (rule_reu_intended_use chk) = ''reu-intended-use''"
  "category (rule_reu_intended_use chk) = ''description''"
  "weight (rule_reu_intended_use chk) = 3"
  "severity (rule_reu_intended_use chk) = ''suggestion''"
  "check (rule_reu_intended_use chk) = chk ''reu-intended-use''"
  "signature_of (rule_reu_intended_use chk) = ''description-intended-use''"
  by (simp_all add: rule_reu_intended_use_def signature_simps)

lemma rule_reu_variables_facts [catalogue]:
  "rule_id (rule_reu_variables chk) = ''reu-variables''"
  "category (rule_reu_variables chk) = ''description''"
  "weight (rule_reu_variables chk) = 5"
  "severity (rule_reu_variables chk) = ''important''"
  "check (rule_reu_variables chk) = chk ''reu-variables''"
  "signature_of (rule_reu_variables chk) = ''description-variable-definitions''"
  by (simp_all add: rule_reu_variables_def signature_simps)

lemma rule_reu_units_facts [catalogue]:
  "rule_id (rule_reu_units chk) = ''reu-units''"
  "category (rule_reu_units chk) = ''description''"
  "weight (rule_reu_units chk) = 2"
  "severity (rule_reu_units chk) = ''suggestion''"
  "check (rule_reu_units chk) = chk ''reu-units''"
  "signature_of (rule_reu_units chk) = ''description-units-specified''"
  by (simp_all add: rule_reu_units_def signature_simps)

lemmas catalogue_defs = rawRules_def identificationRules_def descriptionRules_def
  licenseRules_def keywordRules_def provenanceRules_def accessibilityRules_def
  interoperabilityRules_def citationRules_def reusabilityRules_def

lemmas distinct_strings = distinct.simps list.set insert_iff empty_iff list.inject char.inject
  simp_thms de_Morgan_disj list.distinct

text \<open>A run of rules whose signatures are new and pairwise different is appended as it is.\<close>

lemma dedup_fresh_run:
  assumes "distinct (map signature_of xs)" and "\<forall>x\<in>set xs. seen (signature_of x) = None"
  shows "foldl dedup_step (seen, ded) xs =
           (seen ++ map_of (map (\<lambda>x. (signature_of x, x)) xs), ded @ xs)"
  using assms
proof (induction xs arbitrary: seen ded)
  case Nil
  then show ?case by simp
next
  case (Cons x xs)
  have step: "dedup_step (seen, ded) x = (seen(signature_of x \<mapsto> x), ded @ [x])"
    using Cons.prems(2) by (simp add: dedup_step_def)
  have fresh: "\<forall>y\<in>set xs. (seen(signature_of x \<mapsto> x)) (signature_of y) = None"
    using Cons.prems by (fastforce simp: image_iff)
  have notin: "signature_of x \<notin> dom (map_of (map (\<lambda>x. (signature_of x, x)) xs))"
    using Cons.prems(1) by (auto simp: dom_map_of_conv_image_fst image_iff)
  have a: "foldl dedup_step (seen, ded) (x # xs)
          = foldl dedup_step (seen(signature_of x \<mapsto> x), ded @ [x]) xs"
    by (simp add: step)
  have b: "foldl dedup_step (seen(signature_of x \<mapsto> x), ded @ [x]) xs
          = (seen(signature_of x \<mapsto> x) ++ map_of (map (\<lambda>x. (signature_of x, x)) xs),
             (ded @ [x]) @ xs)"
    using Cons.prems(1) fresh by (intro Cons.IH) simp_all
  have c: "seen(signature_of x \<mapsto> x) ++ map_of (map (\<lambda>x. (signature_of x, x)) xs)
               = seen ++ map_of (map (\<lambda>x. (signature_of x, x)) (x # xs))"
    using notin by (simp add: map_add_upd_left)
  show ?case
    by (simp only: a b c append_assoc append.simps)
qed

lemma findIndex_first:
  assumes "\<forall>a\<in>set as. \<not> P a" and "P x"
  shows "findIndex P (as @ x # bs) = Some (length as)"
  using assms by (induction as) simp_all

lemma signature_lookup:
  assumes "distinct (map signature_of xs)" and "u \<in> set xs"
  shows "map_of (map (\<lambda>x. (signature_of x, x)) xs) (signature_of u) = Some u"
proof -
  have "distinct (map fst (map (\<lambda>x. (signature_of x, x)) xs))"
    using assms(1) by (simp add: comp_def)
  moreover have "(signature_of u, u) \<in> set (map (\<lambda>x. (signature_of x, x)) xs)"
    using assms(2) by auto
  ultimately show ?thesis by (simp only: map_of_eq_Some_iff)
qed

lemma signature_lookup_none:
  assumes "s \<notin> signature_of ` set xs"
  shows "map_of (map (\<lambda>x. (signature_of x, x)) xs) s = None"
  using assms by (simp add: map_of_eq_None_iff image_image)

text \<open>
  The shape of the catalogue: all signatures different but for two collisions.  \<open>y\<close> collides
  with the earlier \<open>x\<close> and is heavier, so it takes the place of \<open>x\<close>; \<open>v\<close> collides with an
  earlier \<open>u\<close> and is not heavier, so it is dropped.
\<close>

lemma dedup_two_collisions:
  assumes D: "distinct (map signature_of (as @ [x] @ bs @ qs @ rs))"
    and ids: "\<forall>a\<in>set as. rule_id a \<noteq> rule_id x"
    and y: "signature_of y = signature_of x" "weight x < weight y"
    and v: "signature_of v = signature_of u" "u \<in> set (as @ bs @ qs)" "weight v \<le> weight u"
  shows "deduplicateRules (as @ [x] @ bs @ [y] @ qs @ [v] @ rs) = as @ [y] @ bs @ qs @ rs"
proof -
  define sg where "sg = (\<lambda>xs. map_of (map (\<lambda>x. (signature_of x, x)) xs))"
  define P where "P = as @ [x] @ bs"
  define seen2 where "seen2 = (sg P)(signature_of y \<mapsto> y)"
  have DD: "distinct (map signature_of (P @ qs @ rs))"
    using D by (simp add: P_def)
  have dP: "distinct (map signature_of P)" and dQ: "distinct (map signature_of qs)"
    and dR: "distinct (map signature_of rs)"
    using DD by simp_all
  have PQ: "signature_of ` set P \<inter> signature_of ` set qs = {}"
    using DD by auto
  have PR: "signature_of ` set P \<inter> signature_of ` set rs = {}"
    using DD by auto
  have QR: "signature_of ` set qs \<inter> signature_of ` set rs = {}"
    using DD by auto
  have xP: "x \<in> set P" by (simp add: P_def)
  have s1: "foldl dedup_step (Map.empty, []) P = (sg P, P)"
    using dedup_fresh_run [OF dP, of Map.empty "[]"] by (simp add: sg_def)
  have "sg P (signature_of y) = Some x"
    unfolding sg_def y(1) by (rule signature_lookup [OF dP xP])
  moreover have "findIndex (\<lambda>r. rule_id r = rule_id x) P = Some (length as)"
    unfolding P_def using findIndex_first [of as "\<lambda>r. rule_id r = rule_id x" x bs] ids by simp
  moreover have "P[length as := y] = as @ [y] @ bs"
    by (simp add: P_def)
  ultimately have s2: "dedup_step (sg P, P) y = (seen2, as @ [y] @ bs)"
    using y(2) by (simp add: dedup_step_def seen2_def)
  have fresh_q: "\<forall>q\<in>set qs. seen2 (signature_of q) = None"
  proof
    fix q assume q: "q \<in> set qs"
    then have "signature_of q \<notin> signature_of ` set P" using PQ by auto
    moreover from this have "signature_of q \<noteq> signature_of y" using xP y(1) by auto
    ultimately show "seen2 (signature_of q) = None"
      by (simp add: seen2_def sg_def signature_lookup_none)
  qed
  have s3: "foldl dedup_step (seen2, as @ [y] @ bs) qs = (seen2 ++ sg qs, (as @ [y] @ bs) @ qs)"
    unfolding sg_def by (rule dedup_fresh_run [OF dQ fresh_q])
  have ux: "signature_of u \<noteq> signature_of x"
    using D v(2) by (auto simp: image_iff)
  have "(seen2 ++ sg qs) (signature_of v) = Some u"
  proof (cases "u \<in> set qs")
    case True
    then have "sg qs (signature_of u) = Some u"
      unfolding sg_def by (rule signature_lookup [OF dQ])
    then show ?thesis by (simp add: v(1) map_add_def)
  next
    case False
    then have uP: "u \<in> set P" using v(2) by (auto simp: P_def)
    then have "signature_of u \<notin> signature_of ` set qs" using PQ by auto
    then have "sg qs (signature_of u) = None"
      unfolding sg_def by (rule signature_lookup_none)
    moreover have "sg P (signature_of u) = Some u"
      unfolding sg_def by (rule signature_lookup [OF dP uP])
    ultimately show ?thesis
      using ux by (simp add: v(1) y(1) map_add_def seen2_def)
  qed
  then have s4: "dedup_step (seen2 ++ sg qs, (as @ [y] @ bs) @ qs) v
                   = (seen2 ++ sg qs, (as @ [y] @ bs) @ qs)"
    using v(3) by (simp add: dedup_step_def)
  have fresh_r: "\<forall>r\<in>set rs. (seen2 ++ sg qs) (signature_of r) = None"
  proof
    fix r assume r: "r \<in> set rs"
    then have a: "signature_of r \<notin> signature_of ` set P" using PR by auto
    from this have b: "signature_of r \<noteq> signature_of y" using xP y(1) by auto
    have c: "signature_of r \<notin> signature_of ` set qs" using r QR by auto
    show "(seen2 ++ sg qs) (signature_of r) = None"
      using a b c by (simp add: seen2_def sg_def signature_lookup_none map_add_def)
  qed
  have s5: "foldl dedup_step (seen2 ++ sg qs, (as @ [y] @ bs) @ qs) rs
              = (seen2 ++ sg qs ++ sg rs, ((as @ [y] @ bs) @ qs) @ rs)"
    using dedup_fresh_run [OF dR fresh_r] by (simp add: sg_def)
  have "deduplicateRules (P @ [y] @ qs @ [v] @ rs)
          = snd (foldl dedup_step (foldl dedup_step (foldl dedup_step (foldl dedup_step
                  (foldl dedup_step (Map.empty, []) P) [y]) qs) [v]) rs)"
    by (simp only: deduplicateRules_def foldl_append)
  also have "\<dots> = ((as @ [y] @ bs) @ qs) @ rs"
    by (simp only: foldl.simps s1 s2 s3 s4 s5 snd_conv)
  finally show ?thesis by (simp add: P_def)
qed

text \<open>
  The catalogue served: of the 71 rules, \<^verbatim>\<open>acc-format-specified\<close> (weight 6) takes the place
  of \<^verbatim>\<open>data-format-specified\<close> (weight 5, same category and name), and
  \<^verbatim>\<open>reu-methodology\<close> (weight 5) is dropped for \<^verbatim>\<open>methodology-present\<close> (weight 8).
\<close>

lemma allRules_eq:
  "allRules chk =
      [rule_title_presence chk, rule_title_length chk, rule_title_not_generic chk,
       rule_authors_presence chk, rule_publisher_presence chk, rule_version_present chk,
       rule_doi_present chk, rule_description_presence chk,
       rule_description_length_minimum chk, rule_description_comprehensive chk,
       rule_methodology_present chk, rule_methodology_detailed chk,
       rule_acc_format_specified chk, rule_license_presence chk, rule_license_spdx_valid chk,
       rule_license_open chk, rule_license_not_restrictive chk, rule_contact_for_licensing chk,
       rule_keywords_presence chk, rule_keywords_minimum_count chk,
       rule_keywords_not_excessive chk, rule_keywords_unique chk, rule_keywords_length chk,
       rule_keywords_no_generic chk, rule_publication_date_present chk,
       rule_publication_date_valid chk, rule_publication_date_not_future chk,
       rule_temporal_coverage_present chk, rule_spatial_coverage_present chk,
       rule_funding_present chk, rule_access_url_present chk, rule_access_url_valid chk,
       rule_citations_present chk, rule_acc_url_present chk, rule_acc_url_valid chk,
       rule_acc_multiple_formats chk, rule_acc_open_format chk, rule_acc_file_size chk,
       rule_acc_language chk, rule_acc_documentation chk, rule_acc_record_count chk,
       rule_acc_api chk, rule_int_schema_defined chk, rule_int_standard_vocab chk,
       rule_int_date_iso8601 chk, rule_int_persistent_id chk, rule_int_machine_license chk,
       rule_int_encoding chk, rule_int_related_resources chk, rule_int_version_pattern chk,
       rule_int_spatial_crs chk, rule_int_namespace chk, rule_cit_doi_present chk,
       rule_cit_citation_text chk, rule_cit_author_orcid chk, rule_cit_pub_date chk,
       rule_cit_publisher chk, rule_cit_version chk, rule_cit_funding chk,
       rule_cit_publications chk, rule_reu_license_reuse chk, rule_reu_processing chk,
       rule_reu_quality_metrics chk, rule_reu_limitations chk, rule_reu_sample_data chk,
       rule_reu_update_frequency chk, rule_reu_intended_use chk, rule_reu_variables chk,
       rule_reu_units chk]"
proof -
  define as where "as =
        [rule_title_presence chk, rule_title_length chk, rule_title_not_generic chk,
         rule_authors_presence chk, rule_publisher_presence chk, rule_version_present chk,
         rule_doi_present chk, rule_description_presence chk,
         rule_description_length_minimum chk, rule_description_comprehensive chk,
         rule_methodology_present chk, rule_methodology_detailed chk]"
  define bs where "bs =
        [rule_license_presence chk, rule_license_spdx_valid chk, rule_license_open chk,
         rule_license_not_restrictive chk, rule_contact_for_licensing chk,
         rule_keywords_presence chk, rule_keywords_minimum_count chk,
         rule_keywords_not_excessive chk, rule_keywords_unique chk, rule_keywords_length chk,
         rule_keywords_no_generic chk, rule_publication_date_present chk,
         rule_publication_date_valid chk, rule_publication_date_not_future chk,
         rule_temporal_coverage_present chk, rule_spatial_coverage_present chk,
         rule_funding_present chk, rule_access_url_present chk, rule_access_url_valid chk,
         rule_citations_present chk, rule_acc_url_present chk, rule_acc_url_valid chk]"
  define qs where "qs =
        [rule_acc_multiple_formats chk, rule_acc_open_format chk, rule_acc_file_size chk,
         rule_acc_language chk, rule_acc_documentation chk, rule_acc_record_count chk,
         rule_acc_api chk, rule_int_schema_defined chk, rule_int_standard_vocab chk,
         rule_int_date_iso8601 chk, rule_int_persistent_id chk, rule_int_machine_license chk,
         rule_int_encoding chk, rule_int_related_resources chk, rule_int_version_pattern chk,
         rule_int_spatial_crs chk, rule_int_namespace chk, rule_cit_doi_present chk,
         rule_cit_citation_text chk, rule_cit_author_orcid chk, rule_cit_pub_date chk,
         rule_cit_publisher chk, rule_cit_version chk, rule_cit_funding chk,
         rule_cit_publications chk, rule_reu_license_reuse chk]"
  define rs where "rs =
        [rule_reu_processing chk, rule_reu_quality_metrics chk, rule_reu_limitations chk,
         rule_reu_sample_data chk, rule_reu_update_frequency chk, rule_reu_intended_use chk,
         rule_reu_variables chk, rule_reu_units chk]"
  have raw: "rawRules chk = as @ [rule_data_format_specified chk] @ bs
               @ [rule_acc_format_specified chk] @ qs @ [rule_reu_methodology chk] @ rs"
    by (simp add: catalogue_defs as_def bs_def qs_def rs_def)
  have D: "distinct (map signature_of (as @ [rule_data_format_specified chk] @ bs @ qs @ rs))"
    unfolding as_def bs_def qs_def rs_def
    by (simp only: append.simps list.map catalogue distinct_strings)
  have ids: "\<forall>a\<in>set as. rule_id a \<noteq> rule_id (rule_data_format_specified chk)"
    unfolding as_def by (simp add: catalogue)
  have u: "rule_methodology_present chk \<in> set (as @ bs @ qs)"
    by (simp add: as_def)
  have "deduplicateRules (rawRules chk) = as @ [rule_acc_format_specified chk] @ bs @ qs @ rs"
    unfolding raw
    by (rule dedup_two_collisions [OF D ids _ _ _ u]) (simp_all add: catalogue)
  then show ?thesis
    by (simp add: allRules_def as_def bs_def qs_def rs_def)
qed
section \<open>Grades\<close>

text \<open>
  C4.  For every integer score \<open>s\<close> from 0 to 100, \<^verbatim>\<open>getScoreGrade\<close> returns letter A with label
  Excellent when \<open>90 \<le> s\<close>, B Good when \<open>80 \<le> s < 90\<close>, C Acceptable when \<open>70 \<le> s < 80\<close>,
  D Needs Improvement when \<open>60 \<le> s < 70\<close>, and F Poor when \<open>s < 60\<close>.  The letter is the field
  \<^verbatim>\<open>grade\<close> of the returned object.  In particular 89 gives B, 90 gives A, 59 gives F and 60
  gives D.
\<close>

theorem getScoreGrade_table:
  fixes s :: int
  assumes "0 \<le> s" and "s \<le> 100"
  shows "(grade (getScoreGrade (Fin (of_int s))), label (getScoreGrade (Fin (of_int s)))) =
           (if 90 \<le> s then (''A'', ''Excellent'')
            else if 80 \<le> s then (''B'', ''Good'')
            else if 70 \<le> s then (''C'', ''Acceptable'')
            else if 60 \<le> s then (''D'', ''Needs Improvement'')
            else (''F'', ''Poor''))
         \<and> grade (getScoreGrade (Fin 89)) = ''B'' \<and> grade (getScoreGrade (Fin 90)) = ''A''
         \<and> grade (getScoreGrade (Fin 59)) = ''F'' \<and> grade (getScoreGrade (Fin 60)) = ''D''"
  by (simp add: getScoreGrade_def)

theorem getScoreGrade_table_witness:
  "(0::int) \<le> 89 \<and> (89::int) \<le> 100
   \<and> (grade (getScoreGrade (Fin (of_int 89))), label (getScoreGrade (Fin (of_int 89)))) = (''B'', ''Good'')"
  using getScoreGrade_table [of 89] by simp

section \<open>Rule evaluator: one outcome per rule, faults contained\<close>

lemma foldl_snoc_map: "foldl (\<lambda>acc x. acc @ [f x]) acc xs = acc @ map f xs"
  by (induction xs arbitrary: acc) simp_all

lemma evaluateRules_map: "evaluateRules rules metadata = map (evaluate_rule metadata) rules"
  by (simp add: evaluateRules_def foldl_snoc_map)

lemma evaluate_rule_tags:
  "ruleId (evaluate_rule metadata rule) = rule_id rule"
  "ruleName (evaluate_rule metadata rule) = rule_name rule"
  "res_category (evaluate_rule metadata rule) = category rule"
  by (simp_all add: evaluate_rule_def split: sum.splits)



section \<open>Overall score\<close>

lemma getTotalWeight_sum: "foldl (\<lambda>sum rule. sum + weight rule) a rules = a + sum_list (map weight rules)"
  by (induction rules arbitrary: a) simp_all

lemma getTotalWeight_spec: "getTotalWeight rules = spec_total_weight rules"
  by (simp add: getTotalWeight_def spec_total_weight_def getTotalWeight_sum)

lemma earn_step_fst:
  "fst (earn_step rules st result) =
     fst st + (if passed result then spec_rule_weight rules result else 0)"
  by (simp add: earn_step_def spec_rule_weight_def Let_def split: option.splits)

lemma total_earned_loop:
  "fst (foldl (earn_step rules) st ruleResults) = fst st + spec_earned_weight rules ruleResults"
proof (induction ruleResults arbitrary: st)
  case Nil
  then show ?case by (simp add: spec_earned_weight_def)
next
  case (Cons r rs)
  have "fst (foldl (earn_step rules) st (r # rs))
          = fst (earn_step rules st r) + spec_earned_weight rules rs"
    by (simp add: Cons.IH)
  then show ?case
    by (simp add: earn_step_fst spec_earned_weight_def)
qed

lemma percentage_round:
  assumes "b \<noteq> 0"
  shows "percentage a b = Fin (of_int (round (100 * of_int a / of_int b :: rat)))"
  using assms by (simp add: percentage_def js_div_def round_def mult.commute)

text \<open>On the evaluator's own output, with unique rule ids: each rule is found by its id, so
  the earned weights are sums over the catalogue rules whose check passed.\<close>

lemma find_self:
  assumes "distinct (map rule_id rules)" and "q \<in> set rules"
  shows "find (\<lambda>q'. rule_id q' = rule_id q) rules = Some q"
  using assms by (induction rules) (auto simp: image_iff)

lemma spec_rule_weight_eval:
  assumes "distinct (map rule_id rules)" and "q \<in> set rules"
  shows "spec_rule_weight rules (evaluate_rule metadata q) = weight q"
    and "spec_in_category rules c (evaluate_rule metadata q) = (category q = c)"
  using find_self [OF assms]
  by (simp_all add: spec_rule_weight_def spec_in_category_def evaluate_rule_tags)

lemma earned_eval_sub:
  assumes "distinct (map rule_id rules)" and "set xs \<subseteq> set rules"
  shows "sum_list (map (spec_rule_weight rules) (filter passed (map (evaluate_rule metadata) xs)))
           = sum_list (map weight (filter (\<lambda>q. passed (evaluate_rule metadata q)) xs))"
    and "sum_list (map (spec_rule_weight rules)
           (filter (\<lambda>r. passed r \<and> spec_in_category rules c r) (map (evaluate_rule metadata) xs)))
           = sum_list (map weight
               (filter (\<lambda>q. passed (evaluate_rule metadata q) \<and> category q = c) xs))"
  using assms(2)
  by (induction xs) (simp_all add: spec_rule_weight_eval [OF assms(1)])

lemma earned_eval:
  assumes "distinct (map rule_id rules)"
  shows "spec_earned_weight rules (evaluateRules rules metadata)
           = sum_list (map weight (filter (\<lambda>q. passed (evaluate_rule metadata q)) rules))"
    and "spec_category_earned rules (evaluateRules rules metadata) c
           = sum_list (map weight
               (filter (\<lambda>q. passed (evaluate_rule metadata q) \<and> category q = c) rules))"
  using earned_eval_sub [OF assms, of rules]
  by (simp_all add: spec_earned_weight_def spec_category_earned_def evaluateRules_map)


text \<open>The catalogue served has a total weight of 329 and keeps the integrity of the data model.\<close>

lemma allRules_total_weight: "spec_total_weight (allRules chk) = 329"
  by (simp add: spec_total_weight_def allRules_eq catalogue)

lemma allRules_ids_distinct: "distinct (map rule_id (allRules chk))"
  unfolding allRules_eq by (simp only: list.map catalogue distinct_strings)

lemma allRules_canonical:
  "list_all (\<lambda>q. category q \<in> set MAIN_CATEGORIES \<and> 0 < weight q) (allRules chk)"
  by (simp add: allRules_eq catalogue MAIN_CATEGORIES_def)

lemma allRules_integrity: "spec_catalogue_integrity (allRules chk)"
  by (simp add: spec_catalogue_integrity_def allRules_ids_distinct allRules_canonical)

lemma allRules_category_totals:
  "map (spec_category_total (allRules chk)) MAIN_CATEGORIES = [81, 125, 46, 77]"
  by (simp add: spec_category_total_def allRules_eq catalogue MAIN_CATEGORIES_def)

text \<open>With these totals no percentage is half-way between two integers, the one place where
  rounding the double quotient could differ from rounding the exact one.\<close>

lemma odd_total_no_tie:
  fixes a k t :: int
  assumes "odd t"
  shows "2 * a \<noteq> t * (2 * k + 1)"
proof
  assume "2 * a = t * (2 * k + 1)"
  then have "even (t * (2 * k + 1))"
    by (metis dvd_triv_left)
  then show False
    using assms by simp
qed

lemma served_totals_no_tie:
  fixes e k :: int
  shows "2 * (100 * e) \<noteq> spec_total_weight (allRules chk) * (2 * k + 1)"
    and "2 * (100 * e) \<noteq> 81 * (2 * k + 1)" and "2 * (100 * e) \<noteq> 125 * (2 * k + 1)"
    and "2 * (100 * e) \<noteq> 46 * (2 * k + 1)" and "2 * (100 * e) \<noteq> 77 * (2 * k + 1)"
proof -
  show "2 * (100 * e) \<noteq> spec_total_weight (allRules chk) * (2 * k + 1)"
    unfolding allRules_total_weight by (rule odd_total_no_tie) simp
  show "2 * (100 * e) \<noteq> 81 * (2 * k + 1)" and "2 * (100 * e) \<noteq> 125 * (2 * k + 1)"
    and "2 * (100 * e) \<noteq> 77 * (2 * k + 1)"
    by (rule odd_total_no_tie, simp)+
  have "2 * (50 * e) \<noteq> 23 * (2 * k + 1)"
    by (rule odd_total_no_tie) simp
  then show "2 * (100 * e) \<noteq> 46 * (2 * k + 1)"
    by simp
qed


section \<open>Category scores\<close>

lemma get_or0_update:
  "get_or0 (AList.update k v al) c = (if c = k then v else get_or0 al c)"
  by (simp add: get_or0_def update_conv')

lemma map_of_tabulate:
  "map_of (map (\<lambda>k. (k, f k)) ks) c = (if c \<in> set ks then Some (f c) else None)"
  by (induction ks) auto

lemma get_or0_tabulate:
  "get_or0 (map (\<lambda>k. (k, f k)) ks) c = (if c \<in> set ks then f c else 0)"
  by (simp add: get_or0_def map_of_tabulate)

lemma category_weights_loop:
  "map_of (foldl (\<lambda>categories rule.
              case map_of categories (category rule) of
                Some w \<Rightarrow> AList.update (category rule) (w + weight rule) categories
              | None \<Rightarrow> categories) al rules) c
     = map_option (\<lambda>w. w + spec_category_total rules c) (map_of al c)"
proof (induction rules arbitrary: al)
  case Nil
  then show ?case
    by (cases "map_of al c") (simp_all add: spec_category_total_def)
next
  case (Cons r rs)
  show ?case
  proof (cases "map_of al (category r)")
    case None
    then show ?thesis
      by (cases "category r = c") (auto simp: Cons.IH spec_category_total_def)
  next
    case (Some w)
    then show ?thesis
      by (cases "category r = c") (auto simp: Cons.IH spec_category_total_def update_conv')
  qed
qed

lemma getCategoryWeights_spec:
  "get_or0 (getCategoryWeights rules) c
     = (if c \<in> set MAIN_CATEGORIES then spec_category_total rules c else 0)"
  by (simp add: getCategoryWeights_def get_or0_def category_weights_loop map_of_tabulate)

text \<open>What the loop earns for a category: the weights of the passed outcomes whose rule's
  category normalizes to it.\<close>

lemma category_earned_loop:
  "get_or0 (snd (foldl (earn_step rules) st ruleResults)) c
     = get_or0 (snd st) c
       + sum_list (map (spec_rule_weight rules)
           (filter (\<lambda>r. passed r \<and>
                     (case find (\<lambda>q. rule_id q = ruleId r) rules of
                        Some q \<Rightarrow> normalizeCategory (category q) = c | None \<Rightarrow> False))
                   ruleResults))"
proof (induction ruleResults arbitrary: st)
  case Nil
  then show ?case by simp
next
  case (Cons r rs)
  have step: "get_or0 (snd (earn_step rules st r)) c
      = get_or0 (snd st) c
        + (if passed r \<and> (case find (\<lambda>q. rule_id q = ruleId r) rules of
                             Some q \<Rightarrow> normalizeCategory (category q) = c | None \<Rightarrow> False)
           then spec_rule_weight rules r else 0)"
    by (auto simp: earn_step_def Let_def get_or0_update spec_rule_weight_def split: option.splits)
  have "get_or0 (snd (foldl (earn_step rules) st (r # rs))) c
      = get_or0 (snd (foldl (earn_step rules) (earn_step rules st r) rs)) c"
    by simp
  then show ?case
    by (simp only: Cons.IH step) simp
qed

lemma normalizeCategory_main:
  assumes "c \<in> set MAIN_CATEGORIES"
  shows "normalizeCategory c = c"
  using assms
  by (auto simp: MAIN_CATEGORIES_def normalizeCategory_def toLowerCase_def lower_char_Char)

lemma find_in_set: "find P xs = Some x \<Longrightarrow> x \<in> set xs \<and> P x"
  by (induction xs) (auto split: if_splits)

lemma category_earned_spec:
  assumes "list_all (\<lambda>q. category q \<in> set MAIN_CATEGORIES) rules"
  shows "get_or0 (snd (foldl (earn_step rules) (e, map (\<lambda>cat. (cat, 0)) cats) ruleResults)) c
           = spec_category_earned rules ruleResults c"
proof -
  have "(case find (\<lambda>q. rule_id q = ruleId r) rules of
           Some q \<Rightarrow> normalizeCategory (category q) = c | None \<Rightarrow> False)
        = spec_in_category rules c r" for r
  proof (cases "find (\<lambda>q. rule_id q = ruleId r) rules")
    case None
    then show ?thesis by (simp add: spec_in_category_def)
  next
    case (Some q)
    then have "q \<in> set rules" by (auto dest: find_in_set)
    then have "category q \<in> set MAIN_CATEGORIES"
      using assms by (simp add: list_all_iff)
    then show ?thesis
      using Some by (simp add: spec_in_category_def normalizeCategory_main)
  qed
  then show ?thesis
    by (simp add: category_earned_loop get_or0_tabulate spec_category_earned_def)
qed



section \<open>Scores are integers from 0 to 100\<close>

lemma round_percent_bounds:
  fixes a b :: int
  assumes "0 \<le> a" and "a \<le> b" and "0 < b"
  shows "0 \<le> round (100 * of_int a / of_int b :: rat)"
    and "round (100 * of_int a / of_int b :: rat) \<le> 100"
proof -
  have lo: "(0::rat) \<le> 100 * of_int a / of_int b"
    using assms by simp
  have "(of_int a :: rat) \<le> of_int b"
    using assms(2) by simp
  then have hi: "100 * of_int a / of_int b \<le> (100::rat)"
    using assms(3) by (simp add: pos_divide_le_eq)
  show "0 \<le> round (100 * of_int a / of_int b :: rat)"
    using lo by (simp add: round_def zero_le_floor)
  show "round (100 * of_int a / of_int b :: rat) \<le> 100"
    using hi by (simp add: round_def floor_le_iff)
qed

lemma is_score_int: "is_score (Fin (of_int n)) = (0 \<le> n \<and> n \<le> 100)"
  by (simp add: is_score_def)

lemma percentage_is_score:
  assumes "0 \<le> a" and "a \<le> b" and "0 < b"
  shows "is_score (percentage a b)"
  using assms round_percent_bounds [OF assms]
  by (simp add: percentage_round is_score_int)

lemma is_score_consts: "is_score (Fin 0)" "is_score (Fin 100)"
  by (simp_all add: is_score_def)



lemma sum_list_filter_bounds:
  fixes f :: "'a \<Rightarrow> int"
  assumes "\<forall>x\<in>set xs. 0 \<le> f x"
  shows "0 \<le> sum_list (map f (filter P xs))"
    and "sum_list (map f (filter (\<lambda>x. P x \<and> Q x) xs)) \<le> sum_list (map f (filter Q xs))"
    and "sum_list (map f (filter P xs)) \<le> sum_list (map f xs)"
  using assms by (induction xs) auto

lemma scores_in_range:
  assumes "spec_catalogue_integrity rules"
  shows "is_score (overall_score (calculateScores rules (evaluateRules rules metadata)))"
    and "map fst (categories (calculateScores rules (evaluateRules rules metadata)))
           = MAIN_CATEGORIES"
    and "list_all is_score
           (map snd (categories (calculateScores rules (evaluateRules rules metadata))))"
proof -
  have d: "distinct (map rule_id rules)"
    and w: "\<forall>q\<in>set rules. 0 \<le> weight q"
    and c: "list_all (\<lambda>q. category q \<in> set MAIN_CATEGORIES) rules"
    using assms by (auto simp: spec_catalogue_integrity_def list_all_iff)
  let ?rs = "evaluateRules rules metadata"
  have e0: "0 \<le> spec_earned_weight rules ?rs"
    and e1: "spec_earned_weight rules ?rs \<le> spec_total_weight rules"
    using sum_list_filter_bounds(1,3) [OF w]
    by (simp_all add: earned_eval(1) [OF d] spec_total_weight_def)
  show "is_score (overall_score (calculateScores rules ?rs))"
    using e0 e1
    by (simp add: calculateScores_def Let_def getTotalWeight_spec total_earned_loop
          percentage_is_score is_score_consts)
  show "map fst (categories (calculateScores rules ?rs)) = MAIN_CATEGORIES"
    by (simp add: calculateScores_def Let_def getCategories_def comp_def)
  have cat: "is_score (percentage (spec_category_earned rules ?rs k)
                                  (spec_category_total rules k))"
    if "0 < spec_category_total rules k" for k
  proof -
    have "0 \<le> spec_category_earned rules ?rs k"
      and "spec_category_earned rules ?rs k \<le> spec_category_total rules k"
      using sum_list_filter_bounds(1,2) [OF w]
      by (simp_all add: earned_eval(2) [OF d] spec_category_total_def)
    then show ?thesis
      using that by (simp add: percentage_is_score)
  qed
  show "list_all is_score (map snd (categories (calculateScores rules ?rs)))"
    using cat
    by (auto simp: calculateScores_def Let_def getCategories_def list_all_iff
          get_or0_tabulate getCategoryWeights_spec category_earned_spec [OF c] is_score_consts)
qed

text \<open>
  C7.  For every record (and whatever the rule checks return, which is where the evaluation
  clock enters), the overall score returned by the evaluation pipeline is an integer from 0
  to 100, and so is the score of each of the four categories.
\<close>

theorem evaluateMetadata_score_bounds:
  "is_score (ev_overall_score
      (evaluateMetadata lib (allRules chk) rawMetadata includeRuleDetails maxRecs))
   \<and> map fst (ev_categories
        (evaluateMetadata lib (allRules chk) rawMetadata includeRuleDetails maxRecs))
       = [''identification'', ''description'', ''legal'', ''provenance'']
   \<and> list_all is_score (map snd (ev_categories
        (evaluateMetadata lib (allRules chk) rawMetadata includeRuleDetails maxRecs)))"
  using scores_in_range [OF allRules_integrity, of chk "normalizeMetadata lib rawMetadata"]
  by (simp add: evaluateMetadata_def Let_def calculateScoreSummary_def MAIN_CATEGORIES_def)

section \<open>Catalogue construction validates nothing\<close>






section \<open>Order of recommendations\<close>

text \<open>A comparator that agrees with a key makes \<^verbatim>\<open>sort\<close> the stable sort by that key.\<close>

lemma js_insert_insort_key:
  assumes "\<And>x y. (cmp x y \<le> 0) = (key x \<le> key y)"
  shows "js_insert cmp x ys = insort_key key x ys"
  by (induction ys) (simp_all add: assms)

lemma js_sort_sort_key:
  assumes "\<And>x y. (cmp x y \<le> 0) = (key x \<le> key y)"
  shows "js_sort cmp xs = sort_key key xs"
proof -
  have "js_insert cmp = insort_key key"
    using js_insert_insort_key [of cmp key, OF assms] by (intro ext)
  then show ?thesis
    by (simp add: js_sort_def sort_key_def)
qed

lemma severity_then_weight_key:
  "(severity_then_weight sa wa sb wb \<le> 0)
     = ((- severity_multiplier sa, - wa) \<le> (- severity_multiplier sb, - wb))"
  by (auto simp: severity_then_weight_def severity_multiplier_def Let_def less_eq_prod_def)

lemma improvement_cmp_key:
  "(improvement_cmp a b \<le> 0)
     = ((severity_rank (imp_severity a), - imp_weight a)
          \<le> (severity_rank (imp_severity b), - imp_weight b))"
  by (auto simp: improvement_cmp_def severity_rank_def Let_def less_eq_prod_def)

lemma prioritized_sort_key:
  "prioritized rules ruleResults =
     sort_key (\<lambda>r. - priorityScore r) (map (enrich rules) (filter (\<lambda>r. \<not> passed r) ruleResults))"
  unfolding prioritized_def Let_def
  by (rule js_sort_sort_key) auto

lemma simple_ranking_sort_key:
  "simple_ranking rules ruleResults =
     sort_key (\<lambda>r. (- severity_multiplier (e_severity r), - e_weight r))
       (map (enrich_simple rules) (filter (\<lambda>r. \<not> passed r) ruleResults))"
  unfolding simple_ranking_def
  by (rule js_sort_sort_key) (rule severity_then_weight_key)

lemma getImprovementPotential_sort_key:
  "getImprovementPotential rules ruleResults =
     sort_key (\<lambda>i. (severity_rank (imp_severity i), - imp_weight i))
       (map (improvement_of rules) (filter (\<lambda>r. \<not> passed r) ruleResults))"
  unfolding getImprovementPotential_def Let_def
  by (rule js_sort_sort_key) (rule improvement_cmp_key)

lemma top_improvements_eq:
  "top_improvements (calculateScoreSummary rules ruleResults)
     = take 5 (getImprovementPotential rules ruleResults)"
  by (simp add: calculateScoreSummary_def Let_def slice0_def)

lemma slice0_sorted:
  assumes "sorted (map key xs)"
  shows "sorted (map key (slice0 n xs))"
  using assms by (simp add: slice0_def take_map [symmetric] sorted_wrt_take)

lemma group_items_sorted:
  assumes "g \<in> set (grouped_categories (generateGroupedRecommendations topResults allFailed))"
  shows "sorted (map (\<lambda>i. (- severity_multiplier (it_severity i), - it_weight i)) (items g))"
proof -
  obtain g0 where "g = g0\<lparr>items :=
      js_sort (\<lambda>a b. severity_then_weight (it_severity a) (it_weight a)
                                          (it_severity b) (it_weight b)) (items g0)\<rparr>"
    using assms by (auto simp: generateGroupedRecommendations_def Let_def)
  then have "items g =
      js_sort (\<lambda>a b. severity_then_weight (it_severity a) (it_weight a)
                                          (it_severity b) (it_weight b)) (items g0)"
    by simp
  moreover have "js_sort (\<lambda>a b. severity_then_weight (it_severity a) (it_weight a)
                                          (it_severity b) (it_weight b)) (items g0)
      = sort_key (\<lambda>i. (- severity_multiplier (it_severity i), - it_weight i)) (items g0)"
    by (rule js_sort_sort_key) (rule severity_then_weight_key)
  ultimately show ?thesis
    by simp
qed

lemma map_enumerate_snd: "map (\<lambda>(i, r). f r) (enumerate n xs) = map f xs"
  by (induction xs arbitrary: n) simp_all

text \<open>The rules of the examples, found by their ids in the catalogue served.\<close>

lemma find_examples:
  "find (\<lambda>q. rule_id q = ''title-length'') (allRules chk) = Some (rule_title_length chk)"
  "find (\<lambda>q. rule_id q = ''reu-variables'') (allRules chk) = Some (rule_reu_variables chk)"
  "find (\<lambda>q. rule_id q = ''description-comprehensive'') (allRules chk)
     = Some (rule_description_comprehensive chk)"
  "find (\<lambda>q. rule_id q = ''keywords-unique'') (allRules chk) = Some (rule_keywords_unique chk)"
  by (simp_all add: allRules_eq catalogue)

lemmas example_rules = rule_title_length_def rule_reu_variables_def
  rule_description_comprehensive_def rule_keywords_unique_def

text \<open>
  C2, as the code has it.  The claim is that \<open>priority = weight \<times> severity multiplier\<close>,
  descending, ranks the flat list, the items of a group and the top improvements, ties going
  to the larger weight.  On the catalogue served: with \<^verbatim>\<open>title-length\<close> (warning, weight 8,
  priority 16) and \<^verbatim>\<open>reu-variables\<close> (important, weight 5, priority 15) failed, the top
  improvements list \<^verbatim>\<open>reu-variables\<close> first; with \<^verbatim>\<open>description-comprehensive\<close> (suggestion,
  weight 6) and \<^verbatim>\<open>keywords-unique\<close> (warning, weight 3) failed, both of priority 6, the
  items of their group list the one of weight 3 first.
\<close>

theorem priority_not_the_ranking_key:
  "map priorityScore (map (enrich (allRules unavailable_checks))
       [failed_outcome (rule_title_length unavailable_checks),
        failed_outcome (rule_reu_variables unavailable_checks)]) = [16, 15]
   \<and> map imp_ruleId (top_improvements (calculateScoreSummary (allRules unavailable_checks)
       [failed_outcome (rule_title_length unavailable_checks),
        failed_outcome (rule_reu_variables unavailable_checks)]))
      = [''reu-variables'', ''title-length'']
   \<and> map priorityScore (map (enrich (allRules unavailable_checks))
       [failed_outcome (rule_description_comprehensive unavailable_checks),
        failed_outcome (rule_keywords_unique unavailable_checks)]) = [6, 6]
   \<and> map (map it_weight) (map items (grouped_categories
         (generateRecommendations (allRules unavailable_checks)
            [failed_outcome (rule_description_comprehensive unavailable_checks),
             failed_outcome (rule_keywords_unique unavailable_checks)] default_options)))
      = [[3, 6]]"
proof -
  have a: "map priorityScore (map (enrich (allRules unavailable_checks))
       [failed_outcome (rule_title_length unavailable_checks),
        failed_outcome (rule_reu_variables unavailable_checks)]) = [16, 15]"
    by (simp add: enrich_def failed_outcome_def catalogue find_examples Let_def
          calculatePriorityScore_def lookup_or_def SEVERITY_WEIGHTS_def)
  have b: "map imp_ruleId (take 5 (getImprovementPotential (allRules unavailable_checks)
       [failed_outcome (rule_title_length unavailable_checks),
        failed_outcome (rule_reu_variables unavailable_checks)]))
      = [''reu-variables'', ''title-length'']"
    by (simp add: getImprovementPotential_def js_sort_def improvement_of_def improvement_cmp_def
          failed_outcome_def catalogue find_examples Let_def lookup_or_def severityOrder_def
          str_or_def)
  have c: "map priorityScore (map (enrich (allRules unavailable_checks))
       [failed_outcome (rule_description_comprehensive unavailable_checks),
        failed_outcome (rule_keywords_unique unavailable_checks)]) = [6, 6]"
    by (simp add: enrich_def failed_outcome_def catalogue find_examples Let_def
          calculatePriorityScore_def lookup_or_def SEVERITY_WEIGHTS_def)
  have d: "map (map it_weight) (map items (grouped_categories
         (generateRecommendations (allRules unavailable_checks)
            [failed_outcome (rule_description_comprehensive unavailable_checks),
             failed_outcome (rule_keywords_unique unavailable_checks)] default_options)))
      = [[3, 6]]"
    by (simp add: generateRecommendations_def default_options_def prioritized_def
          generateGroupedRecommendations_def group_step_def js_sort_def slice0_def
          severity_then_weight_def enrich_def failed_outcome_def catalogue find_examples Let_def
          calculatePriorityScore_def lookup_or_def SEVERITY_WEIGHTS_def str_or_def
          CATEGORY_NAMES_def)
  show ?thesis
    unfolding top_improvements_eq by (intro conjI a b c d)
qed

text \<open>
  C2, amended.  \<open>priority = weight \<times> severity multiplier\<close> (critical 4, important 3,
  warning 2, suggestion 1), descending, is the ranking key of the flat recommendation list
  and of the priority actions only; outcomes of equal priority keep the order of the outcome
  list, with no tie-break on the weight.  The items of each category group and the simple
  recommendations are ordered by severity multiplier descending, then by weight descending.
  The top improvements are ordered by severity first (important before warning before
  suggestion) and by weight descending within one severity.
\<close>

theorem recommendation_order:
  "priorityScore (enrich rules result)
     = (case find (\<lambda>q. rule_id q = ruleId result) rules of
          None \<Rightarrow> 0
        | Some q \<Rightarrow> weight q * lookup_or SEVERITY_WEIGHTS (severity q) 1)
   \<and> sorted (map (\<lambda>r. - priorityScore r) (prioritized rules ruleResults))
   \<and> (\<forall>p. filter (\<lambda>r. priorityScore r = p) (prioritized rules ruleResults)
            = filter (\<lambda>r. priorityScore r = p)
                (map (enrich rules) (filter (\<lambda>r. \<not> passed r) ruleResults)))
   \<and> map f_rule (flat_recommendations
        (generateRecommendations rules ruleResults (opts\<lparr>groupByCategory := False\<rparr>)))
       = map ruleName (slice0 (maxRecommendations opts) (prioritized rules ruleResults))
   \<and> map action (priorityActions
        (generateRecommendations rules ruleResults (opts\<lparr>groupByCategory := True\<rparr>)))
       = map e_recommendation (slice0 (maxRecommendations opts) (prioritized rules ruleResults))
   \<and> (\<forall>g\<in>set (grouped_categories
          (generateRecommendations rules ruleResults (opts\<lparr>groupByCategory := True\<rparr>))).
        sorted (map (\<lambda>i. (- severity_multiplier (it_severity i), - it_weight i)) (items g)))
   \<and> generateSimpleRecommendations rules ruleResults limit
       = map e_recommendation (slice0 limit (simple_ranking rules ruleResults))
   \<and> sorted (map (\<lambda>r. (- severity_multiplier (e_severity r), - e_weight r))
        (simple_ranking rules ruleResults))
   \<and> sorted_wrt (\<lambda>a b. (imp_severity a = imp_severity b \<longrightarrow> imp_weight b \<le> imp_weight a)
                       \<and> (imp_severity a \<noteq> ''critical'' \<and> imp_severity b \<noteq> ''critical''
                            \<longrightarrow> severity_rank (imp_severity a) \<le> severity_rank (imp_severity b)))
        (top_improvements (calculateScoreSummary rules ruleResults))
   \<and> severity_rank ''important'' < severity_rank ''warning''
   \<and> severity_rank ''warning'' < severity_rank ''suggestion''"
proof -
  have p1: "priorityScore (enrich rules result)
     = (case find (\<lambda>q. rule_id q = ruleId result) rules of
          None \<Rightarrow> 0
        | Some q \<Rightarrow> weight q * lookup_or SEVERITY_WEIGHTS (severity q) 1)"
    by (simp add: enrich_def Let_def calculatePriorityScore_def split: option.splits)
  have p2: "sorted (map (\<lambda>r. - priorityScore r) (prioritized rules ruleResults))"
    by (simp add: prioritized_sort_key)
  have p3: "filter (\<lambda>r. priorityScore r = p) (prioritized rules ruleResults)
            = filter (\<lambda>r. priorityScore r = p)
                (map (enrich rules) (filter (\<lambda>r. \<not> passed r) ruleResults))" for p
    using sort_key_stable [of "\<lambda>r. - priorityScore r" "- p"]
    by (simp add: prioritized_sort_key)
  have p4: "map f_rule (flat_recommendations
        (generateRecommendations rules ruleResults (opts\<lparr>groupByCategory := False\<rparr>)))
       = map ruleName (slice0 (maxRecommendations opts) (prioritized rules ruleResults))"
    using map_enumerate_snd [of ruleName 0]
    by (simp add: generateRecommendations_def generateFlatRecommendations_def Let_def comp_def
          case_prod_unfold)
  have p5: "map action (priorityActions
        (generateRecommendations rules ruleResults (opts\<lparr>groupByCategory := True\<rparr>)))
       = map e_recommendation (slice0 (maxRecommendations opts) (prioritized rules ruleResults))"
    by (simp add: generateRecommendations_def generateGroupedRecommendations_def Let_def comp_def)
  have p6: "sorted (map (\<lambda>i. (- severity_multiplier (it_severity i), - it_weight i)) (items g))"
    if "g \<in> set (grouped_categories
          (generateRecommendations rules ruleResults (opts\<lparr>groupByCategory := True\<rparr>)))" for g
    using that by (auto simp: generateRecommendations_def Let_def intro: group_items_sorted)
  have p7: "sorted (map (\<lambda>r. (- severity_multiplier (e_severity r), - e_weight r))
        (simple_ranking rules ruleResults))"
    by (simp add: simple_ranking_sort_key)
  have "sorted (map (\<lambda>i. (severity_rank (imp_severity i), - imp_weight i))
          (top_improvements (calculateScoreSummary rules ruleResults)))"
    by (simp add: top_improvements_eq getImprovementPotential_sort_key take_map [symmetric]
          sorted_wrt_take)
  then have "sorted_wrt (\<lambda>a b. (severity_rank (imp_severity a), - imp_weight a)
                               \<le> (severity_rank (imp_severity b), - imp_weight b))
          (top_improvements (calculateScoreSummary rules ruleResults))"
    by (simp add: sorted_map)
  then have p8: "sorted_wrt (\<lambda>a b. (imp_severity a = imp_severity b \<longrightarrow> imp_weight b \<le> imp_weight a)
                       \<and> (imp_severity a \<noteq> ''critical'' \<and> imp_severity b \<noteq> ''critical''
                            \<longrightarrow> severity_rank (imp_severity a) \<le> severity_rank (imp_severity b)))
        (top_improvements (calculateScoreSummary rules ruleResults))"
    by (rule sorted_wrt_mono_rel [rotated]) (auto simp: less_eq_prod_def)
  have p9: "severity_rank ''important'' < severity_rank ''warning''"
    "severity_rank ''warning'' < severity_rank ''suggestion''"
    by (simp_all add: severity_rank_def lookup_or_def severityOrder_def)
  show ?thesis
    using p1 p2 p3 p4 p5 p6 p7 p8 p9 by (simp add: generateSimpleRecommendations_def)
qed

theorem recommendation_order_witness:
  "map (map it_rule) (map items (grouped_categories
      (generateRecommendations (allRules unavailable_checks)
         [failed_outcome (rule_description_comprehensive unavailable_checks),
          failed_outcome (rule_keywords_unique unavailable_checks)]
         (default_options\<lparr>groupByCategory := True\<rparr>))))
     = [[''Keywords Unique'', ''Description Comprehensive'']]
   \<and> list_all (\<lambda>g. sorted (map (\<lambda>i. (- severity_multiplier (it_severity i), - it_weight i))
                                  (items g)))
       (grouped_categories
         (generateRecommendations (allRules unavailable_checks)
            [failed_outcome (rule_description_comprehensive unavailable_checks),
             failed_outcome (rule_keywords_unique unavailable_checks)]
            (default_options\<lparr>groupByCategory := True\<rparr>)))"
proof -
  have d: "map (map it_rule) (map items (grouped_categories
      (generateRecommendations (allRules unavailable_checks)
         [failed_outcome (rule_description_comprehensive unavailable_checks),
          failed_outcome (rule_keywords_unique unavailable_checks)]
         (default_options\<lparr>groupByCategory := True\<rparr>))))
     = [[''Keywords Unique'', ''Description Comprehensive'']]"
    by (simp add: generateRecommendations_def default_options_def prioritized_def
          generateGroupedRecommendations_def group_step_def js_sort_def slice0_def
          severity_then_weight_def enrich_def failed_outcome_def catalogue find_examples Let_def
          calculatePriorityScore_def lookup_or_def SEVERITY_WEIGHTS_def str_or_def
          CATEGORY_NAMES_def example_rules)
  have "\<forall>g\<in>set (grouped_categories
         (generateRecommendations (allRules unavailable_checks)
            [failed_outcome (rule_description_comprehensive unavailable_checks),
             failed_outcome (rule_keywords_unique unavailable_checks)]
            (default_options\<lparr>groupByCategory := True\<rparr>))).
        sorted (map (\<lambda>i. (- severity_multiplier (it_severity i), - it_weight i)) (items g))"
    using recommendation_order [of "allRules unavailable_checks"
        "failed_outcome (rule_keywords_unique unavailable_checks)"
        "[failed_outcome (rule_description_comprehensive unavailable_checks),
          failed_outcome (rule_keywords_unique unavailable_checks)]" default_options 5]
    by blast
  then have l: "list_all (\<lambda>g. sorted (map (\<lambda>i. (- severity_multiplier (it_severity i), - it_weight i))
                                  (items g)))
       (grouped_categories
         (generateRecommendations (allRules unavailable_checks)
            [failed_outcome (rule_description_comprehensive unavailable_checks),
             failed_outcome (rule_keywords_unique unavailable_checks)]
            (default_options\<lparr>groupByCategory := True\<rparr>)))"
    by (simp add: list_all_iff)
  show ?thesis
    by (rule conjI [OF d l])
qed

section \<open>Normalizer\<close>

lemma dropWhile_last: "dropWhile P xs \<noteq> [] \<Longrightarrow> last (dropWhile P xs) = last xs"
  by (metis takeWhile_dropWhile_id last_appendR)

lemma trim_idem: "trim (trim s) = trim s"
proof -
  define a where "a = dropWhile is_ws s"
  define b where "b = dropWhile is_ws (rev a)"
  have b_fix: "dropWhile is_ws b = b"
    by (simp add: b_def)
  have "dropWhile is_ws (rev b) = rev b"
  proof (cases "b = []")
    case True
    then show ?thesis by simp
  next
    case False
    then have "last b = last (rev a)"
      unfolding b_def by (rule dropWhile_last)
    moreover have a: "a \<noteq> []"
      using False by (auto simp: b_def)
    ultimately have "last b = hd a"
      by (simp add: last_rev)
    moreover have "\<not> is_ws (hd a)"
      using a unfolding a_def by (rule hd_dropWhile)
    ultimately have "\<not> is_ws (hd (rev b))"
      using False by (simp add: hd_rev)
    then show ?thesis
      using False by (cases "rev b") simp_all
  qed
  then show ?thesis
    by (simp add: trim_def a_def [symmetric] b_def [symmetric] b_fix)
qed

lemma normal_string_idem: "normal_string (normal_string v) = normal_string v"
  by (cases v) (simp_all add: normal_string_def trim_idem)

lemma normal_array_idem: "normal_array (normal_array v) = normal_array v"
proof (cases v)
  case (JArr xs)
  define ys where "ys = filter keep_item (map trim_item xs)"
  have "trim_item y = y \<and> keep_item y" if "y \<in> set ys" for y
    using that by (auto simp: ys_def trim_item_def trim_idem split: jsvalue.splits)
  then have "filter keep_item (map trim_item ys) = ys"
    by (simp add: map_idI)
  then show ?thesis
    using JArr by (simp add: normal_array_def ys_def [symmetric])
qed (simp_all add: normal_array_def)

lemma normal_date_idem:
  assumes "date_roundtrip lib"
  shows "normal_date lib (normal_date lib v) = normal_date lib v"
proof (cases "truthy v")
  case False
  then show ?thesis by (simp add: normal_date_def)
next
  case True
  show ?thesis
  proof (cases "Date_parse lib (trim (js_String lib v))")
    case None
    then show ?thesis using True by (simp add: normal_date_def)
  next
    case (Some t)
    then have first: "normal_date lib v = JStr (iso_date lib t)"
      using True by (simp add: normal_date_def)
    have "normal_date lib (JStr (iso_date lib t)) = JStr (iso_date lib t)"
    proof (cases "Date_parse lib (trim (iso_date lib t))")
      case None
      then show ?thesis by (simp add: normal_date_def js_String_def)
    next
      case (Some t')
      then have "iso_date lib t' = iso_date lib t"
        using assms by (simp add: date_roundtrip_def)
      then show ?thesis
        using Some by (simp add: normal_date_def js_String_def)
    qed
    then show ?thesis by (simp add: first)
  qed
qed

text \<open>Each step of the normalizer is the update of one property.\<close>

lemma update_same: "map_of fs k = Some v \<Longrightarrow> AList.update k v fs = fs"
  by (induction fs) (auto split: if_splits)

lemma update_twice: "AList.update k v (AList.update k w fs) = AList.update k v fs"
  by (induction fs) auto

lemma normalize_string_field_modify:
  "normalize_string_field fs f = modify_prop fs (f, normal_string)"
proof (cases "map_of fs f")
  case None
  then show ?thesis
    by (simp add: normalize_string_field_def modify_prop_def get_prop_def)
next
  case (Some v)
  then show ?thesis
    by (cases v)
       (simp_all add: normalize_string_field_def modify_prop_def get_prop_def set_prop_def
          normal_string_def update_same update_twice update_conv' Let_def)
qed

lemma normalize_array_field_modify:
  "normalize_array_field fs f = modify_prop fs (f, normal_array)"
proof (cases "map_of fs f")
  case None
  then show ?thesis
    by (simp add: normalize_array_field_def modify_prop_def get_prop_def)
next
  case (Some v)
  then show ?thesis
    by (cases v)
       (simp_all add: normalize_array_field_def modify_prop_def get_prop_def set_prop_def
          normal_array_def update_same update_twice Let_def)
qed

lemma normalize_publication_date_modify:
  "normalize_publication_date lib fs = modify_prop fs (''publication_date'', normal_date lib)"
proof (cases "map_of fs ''publication_date''")
  case None
  then show ?thesis
    by (simp add: normalize_publication_date_def modify_prop_def get_prop_def)
next
  case (Some v)
  then show ?thesis
    by (simp add: normalize_publication_date_def modify_prop_def get_prop_def set_prop_def
          normal_date_def update_same Let_def split: option.splits)
qed

lemma foldl_modify:
  "foldl normalize_string_field fs ks = foldl modify_prop fs (map (\<lambda>f. (f, normal_string)) ks)"
  "foldl normalize_array_field fs ks = foldl modify_prop fs (map (\<lambda>f. (f, normal_array)) ks)"
  by (induction ks arbitrary: fs)
     (simp_all add: normalize_string_field_modify normalize_array_field_modify)

lemma normalizeMetadata_rules:
  "normalizeMetadata lib raw =
     (if is_object raw then JObj (foldl modify_prop (spread raw) (field_rules lib)) else JObj [])"
  by (simp add: normalizeMetadata_def Let_def field_rules_def foldl_modify
        normalize_publication_date_modify)

lemma map_of_modify_prop:
  "map_of (modify_prop fs (k, g)) k' = (if k' = k then map_option g (map_of fs k) else map_of fs k')"
  by (cases "map_of fs k") (simp_all add: modify_prop_def update_conv')

lemma map_of_run:
  assumes "distinct (map fst steps)"
  shows "map_of (foldl modify_prop fs steps) k =
           (case map_of steps k of Some g \<Rightarrow> map_option g (map_of fs k) | None \<Rightarrow> map_of fs k)"
  using assms
proof (induction steps arbitrary: fs)
  case Nil
  then show ?case by simp
next
  case (Cons s steps)
  obtain k0 g0 where s: "s = (k0, g0)" by (cases s)
  have notin: "map_of steps k0 = None"
    using Cons.prems by (simp add: s map_of_eq_None_iff)
  have "map_of (foldl modify_prop fs (s # steps)) k
      = (case map_of steps k of
           Some g \<Rightarrow> map_option g (map_of (modify_prop fs (k0, g0)) k)
         | None \<Rightarrow> map_of (modify_prop fs (k0, g0)) k)"
    using Cons.prems by (simp add: Cons.IH s)
  then show ?case
    using notin by (cases "k = k0") (simp_all add: s map_of_modify_prop split: option.splits)
qed

lemma fixed_run:
  assumes "\<forall>(k, g)\<in>set steps. \<forall>v. map_of fs k = Some v \<longrightarrow> g v = v"
  shows "foldl modify_prop fs steps = fs"
  using assms
proof (induction steps)
  case Nil
  then show ?case by simp
next
  case (Cons s steps)
  obtain k g where s: "s = (k, g)" by (cases s)
  have "modify_prop fs (k, g) = fs"
    using Cons.prems by (cases "map_of fs k") (simp_all add: s modify_prop_def update_same)
  then show ?case
    using Cons by (simp add: s)
qed

lemma run_idem:
  assumes d: "distinct (map fst steps)"
    and i: "\<forall>(k, g)\<in>set steps. \<forall>v. g (g v) = g v"
  shows "foldl modify_prop (foldl modify_prop fs steps) steps = foldl modify_prop fs steps"
proof (rule fixed_run, clarify)
  fix k g v
  assume kg: "(k, g) \<in> set steps" and v: "map_of (foldl modify_prop fs steps) k = Some v"
  have "map_of steps k = Some g"
    using d kg by simp
  then obtain v0 where "v = g v0"
    using v by (auto simp: map_of_run [OF d])
  then show "g v = v"
    using i kg by auto
qed

lemma field_rules_distinct: "distinct (map fst (field_rules lib))"
  by (simp add: field_rules_def stringFields_def arrayFields_def)

lemma field_rules_idem:
  assumes "date_roundtrip lib"
  shows "\<forall>(k, g)\<in>set (field_rules lib). \<forall>v. g (g v) = g v"
  using normal_date_idem [OF assms]
  by (auto simp: field_rules_def normal_string_idem normal_array_idem)

text \<open>
  C9.  Normalization is idempotent: for every input \<open>R\<close>,
  \<open>normalize (normalize R) = normalize R\<close>, on the one property the code takes from the date
  library, that a canonical date which parses again gives the same canonical date.
\<close>

theorem normalizeMetadata_idempotent:
  assumes "date_roundtrip lib"
  shows "normalizeMetadata lib (normalizeMetadata lib R) = normalizeMetadata lib R"
proof (cases "is_object R")
  case True
  then show ?thesis
    using run_idem [OF field_rules_distinct field_rules_idem [OF assms]]
    by (simp add: normalizeMetadata_rules is_object_def spread_def)
next
  case False
  have "foldl modify_prop [] (field_rules lib) = []"
    by (rule fixed_run) simp
  then show ?thesis
    using False by (simp add: normalizeMetadata_rules is_object_def spread_def)
qed

lemma sample_library_roundtrip: "date_roundtrip sample_library"
  by (auto simp: date_roundtrip_def sample_library_def iso_date_def sample_iso_def
        sample_parse_def trim_def is_ws_def split: if_splits)

theorem normalizeMetadata_idempotent_witness:
  "date_roundtrip sample_library
   \<and> normalizeMetadata sample_library
       (JObj [(''title'', JStr ''  Rainfall  ''), (''doi'', JStr ''   ''),
              (''keywords'', JArr [JStr '' rain '', JStr '''', JNull]),
              (''publication_date'', JStr ''January 15, 2024 UTC'')])
     = JObj [(''title'', JStr ''Rainfall''), (''doi'', JUndefined),
             (''keywords'', JArr [JStr ''rain'']),
             (''publication_date'', JStr ''2024-01-15'')]
   \<and> normalizeMetadata sample_library
       (JObj [(''title'', JStr ''Rainfall''), (''doi'', JUndefined),
              (''keywords'', JArr [JStr ''rain'']),
              (''publication_date'', JStr ''2024-01-15'')])
     = JObj [(''title'', JStr ''Rainfall''), (''doi'', JUndefined),
             (''keywords'', JArr [JStr ''rain'']),
             (''publication_date'', JStr ''2024-01-15'')]"
proof -
  have first: "normalizeMetadata sample_library
       (JObj [(''title'', JStr ''  Rainfall  ''), (''doi'', JStr ''   ''),
              (''keywords'', JArr [JStr '' rain '', JStr '''', JNull]),
              (''publication_date'', JStr ''January 15, 2024 UTC'')])
     = JObj [(''title'', JStr ''Rainfall''), (''doi'', JUndefined),
             (''keywords'', JArr [JStr ''rain'']),
             (''publication_date'', JStr ''2024-01-15'')]"
    by code_simp
  show ?thesis
    using normalizeMetadata_idempotent [OF sample_library_roundtrip, of
       "JObj [(''title'', JStr ''  Rainfall  ''), (''doi'', JStr ''   ''),
              (''keywords'', JArr [JStr '' rain '', JStr '''', JNull]),
              (''publication_date'', JStr ''January 15, 2024 UTC'')]"]
    by (simp add: first sample_library_roundtrip)
qed












end
